theory Spec2Isabelle
  imports Main "HOL-Library.Sublist"
begin

section \<open>Strings\<close>

text \<open>
  A JavaScript string is a sequence of code units. The model uses \<^typ>\<open>string\<close>, whose
  characters are the code units U+0000 to U+00FF (Latin-1); \<open>length\<close> is the
  \<^verbatim>\<open>.length\<close> of the source and \<open>take\<close>/\<open>drop\<close> are its \<^verbatim>\<open>slice\<close>.
\<close>

text \<open>
  \<^verbatim>\<open>String.prototype.toLowerCase\<close> on this range: A to Z and the accented capitals
  U+00C0 to U+00DE (without the multiplication sign U+00D7) move up by 32, every other
  code unit stays.
\<close>

definition toLowerChar :: "char \<Rightarrow> char" where
  "toLowerChar c =
     (let n = (of_char c :: nat)
      in if (65 \<le> n \<and> n \<le> 90) \<or> (192 \<le> n \<and> n \<le> 222 \<and> n \<noteq> 215)
         then char_of (n + 32) else c)"

definition toLowerCase :: "string \<Rightarrow> string" where
  "toLowerCase s = map toLowerChar s"

text \<open>The white space and line terminators of ECMAScript in this range
  (\<^verbatim>\<open>trim\<close> and the class \<^verbatim>\<open>\s\<close>): TAB, LF, VT, FF, CR, SP and NBSP.\<close>

definition isWhiteSpace :: "char \<Rightarrow> bool" where
  "isWhiteSpace c = (let n = (of_char c :: nat) in (9 \<le> n \<and> n \<le> 13) \<or> n = 32 \<or> n = 160)"

definition trim :: "string \<Rightarrow> string" where
  "trim s = rev (dropWhile isWhiteSpace (rev (dropWhile isWhiteSpace s)))"

text \<open>\<^verbatim>\<open>s.includes(sub)\<close>: \<open>sub\<close> occurs in \<open>s\<close> as a contiguous run.\<close>

fun str_includes :: "string \<Rightarrow> string \<Rightarrow> bool" where
  "str_includes [] sub = (sub = [])"
| "str_includes (c # s) sub = (prefix sub (c # s) \<or> str_includes s sub)"

section \<open>Property formatters: form value to wire value\<close>

text \<open>
  A run of a title or rich-text value. The extension sends \<^verbatim>\<open>{ text: { content } }\<close>;
  the store answers with runs that also carry \<^verbatim>\<open>plain_text\<close>, the only field the parsers
  read. \<open>plain_text = None\<close> is the field being absent.
\<close>

record text_run =
  text_content :: string
  plain_text :: "string option"

definition sent_run :: "string \<Rightarrow> text_run" where
  "sent_run s = \<lparr>text_content = s, plain_text = None\<rparr>"

definition MAX_CHARS :: nat where
  "MAX_CHARS = 2000"

text \<open>
  The loop of \<^verbatim>\<open>PropertyFormatters.rich_text\<close>:
  \<^verbatim>\<open>for (let i = 0; i < content.length; i += MAX_CHARS) blocks.push(content.slice(i, i + MAX_CHARS))\<close>.
\<close>

function rich_text_blocks :: "nat \<Rightarrow> string \<Rightarrow> text_run list" where
  "rich_text_blocks i content =
     (if i < length content
      then sent_run (take MAX_CHARS (drop i content)) # rich_text_blocks (i + MAX_CHARS) content
      else [])"
  by pat_completeness auto
termination
  by (relation "measure (\<lambda>(i, content). length content - i)") (auto simp: MAX_CHARS_def)

declare rich_text_blocks.simps [simp del]

definition PropertyFormatters_rich_text :: "string \<Rightarrow> text_run list" where
  "PropertyFormatters_rich_text v =
     (let blocks = rich_text_blocks 0 v
      in if blocks \<noteq> [] then blocks else [sent_run ''''])"


text \<open>
  The other formatters. A \<open>None\<close> on the wire is JSON \<^verbatim>\<open>null\<close>; a wrapper \<^verbatim>\<open>{ name }\<close> of
  a select, status or multi-select value and a wrapper \<^verbatim>\<open>{ start }\<close> of a date are
  represented by the string they hold.
\<close>

definition PropertyFormatters_title :: "string \<Rightarrow> text_run list" where
  "PropertyFormatters_title v = [sent_run v]"

definition PropertyFormatters_url :: "string \<Rightarrow> string option" where
  "PropertyFormatters_url v = (if v \<noteq> [] then Some v else None)"

definition PropertyFormatters_checkbox :: "bool \<Rightarrow> bool" where
  "PropertyFormatters_checkbox v = v"

definition PropertyFormatters_select :: "string \<Rightarrow> string option" where
  "PropertyFormatters_select v = (if v \<noteq> [] then Some v else None)"

definition PropertyFormatters_multi_select :: "string list \<Rightarrow> string list" where
  "PropertyFormatters_multi_select vs = map (\<lambda>n. n) vs"

definition PropertyFormatters_date :: "string \<Rightarrow> string option" where
  "PropertyFormatters_date v = (if v \<noteq> [] then Some v else None)"

definition PropertyFormatters_email :: "string \<Rightarrow> string option" where
  "PropertyFormatters_email v = (if v \<noteq> [] then Some v else None)"

definition PropertyFormatters_phone_number :: "string \<Rightarrow> string option" where
  "PropertyFormatters_phone_number v = (if v \<noteq> [] then Some v else None)"

definition PropertyFormatters_status :: "string \<Rightarrow> string option" where
  "PropertyFormatters_status v = (if v \<noteq> [] then Some v else None)"

subsection \<open>Numbers\<close>

text \<open>
  \<^verbatim>\<open>parseFloat\<close> skips leading white space and reads the longest prefix that is a
  \<^verbatim>\<open>StrDecimalLiteral\<close>: an optional sign, then \<^verbatim>\<open>Infinity\<close>, or digits with an optional
  fraction, or a fraction alone, each with an optional complete exponent. With no such
  prefix the result is \<^verbatim>\<open>NaN\<close>. The model keeps the literal that was read and does not
  compute its floating-point value: \<open>Num lit\<close> is the Number that \<open>lit\<close> denotes.
\<close>

datatype jsnum = NaN | Num string

definition isDigit :: "char \<Rightarrow> bool" where
  "isDigit c = (let n = (of_char c :: nat) in 48 \<le> n \<and> n \<le> 57)"

definition exponent_part :: "string \<Rightarrow> string" where
  "exponent_part s =
     (case s of
        [] \<Rightarrow> []
      | e # r \<Rightarrow>
          if e = CHR ''e'' \<or> e = CHR ''E'' then
            (let sg = (case r of [] \<Rightarrow> [] | c # _ \<Rightarrow> if c = CHR ''+'' \<or> c = CHR ''-'' then [c] else []);
                 ds = takeWhile isDigit (drop (length sg) r)
             in if ds = [] then [] else e # sg @ ds)
          else [])"

definition unsigned_literal :: "string \<Rightarrow> string option" where
  "unsigned_literal s =
     (if prefix ''Infinity'' s then Some ''Infinity''
      else
        (let ip = takeWhile isDigit s; r = dropWhile isDigit s
         in case r of
              c # r' \<Rightarrow>
                if c = CHR ''.'' then
                  (let fp = takeWhile isDigit r'; r'' = dropWhile isDigit r'
                   in if ip = [] \<and> fp = [] then None
                      else Some (ip @ [c] @ fp @ exponent_part r''))
                else if ip = [] then None else Some (ip @ exponent_part r)
            | [] \<Rightarrow> if ip = [] then None else Some ip))"

definition str_decimal_prefix :: "string \<Rightarrow> string option" where
  "str_decimal_prefix s =
     (case s of
        [] \<Rightarrow> None
      | c # r \<Rightarrow>
          if c = CHR ''+'' \<or> c = CHR ''-'' then map_option (\<lambda>l. c # l) (unsigned_literal r)
          else unsigned_literal s)"

definition parseFloat :: "string \<Rightarrow> jsnum" where
  "parseFloat s =
     (case str_decimal_prefix (dropWhile isWhiteSpace s) of None \<Rightarrow> NaN | Some lit \<Rightarrow> Num lit)"

text \<open>
  What the number formatter is given: the text of an input, \<^verbatim>\<open>null\<close>, or a Number that
  \<^verbatim>\<open>getFieldValue\<close> has parsed already. For a Number \<open>x\<close> the source computes
  \<^verbatim>\<open>parseFloat(String(x))\<close>, which is \<open>x\<close> again (\<^verbatim>\<open>NaN\<close> prints as \<^verbatim>\<open>"NaN"\<close>, which has no
  numeric prefix).
\<close>

datatype number_input = NumText string | NumNull | NumValue jsnum

fun PropertyFormatters_number :: "number_input \<Rightarrow> jsnum option" where
  "PropertyFormatters_number (NumText v) = (if v \<noteq> [] then Some (parseFloat v) else None)"
| "PropertyFormatters_number NumNull = None"
| "PropertyFormatters_number (NumValue x) = Some x"

text \<open>
  The request body is written with \<^verbatim>\<open>JSON.stringify\<close>, which prints \<^verbatim>\<open>NaN\<close> and the
  infinities as \<^verbatim>\<open>null\<close>. \<open>json_number\<close> is the JSON text of the \<^verbatim>\<open>number\<close> field, with
  \<open>None\<close> for \<^verbatim>\<open>null\<close>. Whether the Number of a literal is finite (\<^verbatim>\<open>Infinity\<close> and
  literals beyond the largest double are not) is a fact of floating-point arithmetic that
  the model does not compute: it is the parameter \<open>finite_literal\<close>.
\<close>

fun json_number :: "(string \<Rightarrow> bool) \<Rightarrow> jsnum option \<Rightarrow> jsnum option" where
  "json_number finite_literal None = None"
| "json_number finite_literal (Some NaN) = None"
| "json_number finite_literal (Some (Num lit)) =
     (if finite_literal lit then Some (Num lit) else None)"

section \<open>Property parsers: wire value to form value\<close>

text \<open>
  \<^verbatim>\<open>property.title?.[0]?.plain_text || ''\<close>: the plain text of the first run, and the
  empty string when there is no run or no plain text.
\<close>

definition first_plain_text :: "text_run list \<Rightarrow> string" where
  "first_plain_text runs =
     (case runs of
        [] \<Rightarrow> []
      | r # _ \<Rightarrow> (case plain_text r of None \<Rightarrow> [] | Some p \<Rightarrow> p))"

definition PropertyParsers_title :: "text_run list \<Rightarrow> string" where
  "PropertyParsers_title runs = first_plain_text runs"

definition PropertyParsers_rich_text :: "text_run list \<Rightarrow> string" where
  "PropertyParsers_rich_text runs = first_plain_text runs"

definition PropertyParsers_url :: "string option \<Rightarrow> string" where
  "PropertyParsers_url w = (case w of None \<Rightarrow> [] | Some u \<Rightarrow> u)"

text \<open>\<^verbatim>\<open>property.number !== null ? property.number : ''\<close>: the Number, or the empty string
  for \<^verbatim>\<open>null\<close>.\<close>

datatype parsed_number = ParsedEmpty | ParsedNumber jsnum

definition PropertyParsers_number :: "jsnum option \<Rightarrow> parsed_number" where
  "PropertyParsers_number w = (case w of None \<Rightarrow> ParsedEmpty | Some x \<Rightarrow> ParsedNumber x)"

definition PropertyParsers_checkbox :: "bool \<Rightarrow> bool" where
  "PropertyParsers_checkbox w = (w \<or> False)"

definition PropertyParsers_select :: "string option \<Rightarrow> string" where
  "PropertyParsers_select w = (case w of None \<Rightarrow> [] | Some n \<Rightarrow> n)"

definition PropertyParsers_multi_select :: "string list \<Rightarrow> string list" where
  "PropertyParsers_multi_select w = map (\<lambda>opt. opt) w"

definition PropertyParsers_date :: "string option \<Rightarrow> string" where
  "PropertyParsers_date w = (case w of None \<Rightarrow> [] | Some d \<Rightarrow> d)"

definition PropertyParsers_email :: "string option \<Rightarrow> string" where
  "PropertyParsers_email w = (case w of None \<Rightarrow> [] | Some e \<Rightarrow> e)"

definition PropertyParsers_phone_number :: "string option \<Rightarrow> string" where
  "PropertyParsers_phone_number w = (case w of None \<Rightarrow> [] | Some p \<Rightarrow> p)"

definition PropertyParsers_status :: "string option \<Rightarrow> string" where
  "PropertyParsers_status w = (case w of None \<Rightarrow> [] | Some n \<Rightarrow> n)"

text \<open>
  The store keeps the runs it is sent and returns each with \<^verbatim>\<open>plain_text\<close> equal to its
  text content. This is the only way a serialized title or rich text reaches a parser.
\<close>

definition stored_run :: "text_run \<Rightarrow> text_run" where
  "stored_run r = r\<lparr>plain_text := Some (text_content r)\<rparr>"

definition store_echo :: "text_run list \<Rightarrow> text_run list" where
  "store_echo runs = map stored_run runs"

section \<open>The location matcher\<close>

text \<open>An option of a select, multi-select or status column.\<close>

record select_option =
  name :: string
  color :: string

subsection \<open>The regular expressions of the matcher\<close>

text \<open>The class \<^verbatim>\<open>\w\<close>: letters, digits and the underscore.\<close>

definition isWordChar :: "char \<Rightarrow> bool" where
  "isWordChar c =
     (let n = (of_char c :: nat)
      in (48 \<le> n \<and> n \<le> 57) \<or> (65 \<le> n \<and> n \<le> 90) \<or> n = 95 \<or> (97 \<le> n \<and> n \<le> 122))"

text \<open>The lookahead \<^verbatim>\<open>(?!\w)\<close> and, after a word character, the boundary \<^verbatim>\<open>\b\<close>: the rest
  of the text does not start with a word character.\<close>

definition not_before_word :: "string \<Rightarrow> bool" where
  "not_before_word rest = (case rest of [] \<Rightarrow> True | c # _ \<Rightarrow> \<not> isWordChar c)"

text \<open>\<^verbatim>\<open>/kw(?!\w)/\<close> somewhere in the text.\<close>

fun occurs_not_before_word :: "string \<Rightarrow> string \<Rightarrow> bool" where
  "occurs_not_before_word [] kw = (kw = [])"
| "occurs_not_before_word (c # s) kw =
     ((prefix kw (c # s) \<and> not_before_word (drop (length kw) (c # s)))
      \<or> occurs_not_before_word s kw)"

text \<open>The dot of a pattern matches every code unit but a line terminator (LF, CR).\<close>

definition isLineTerminator :: "char \<Rightarrow> bool" where
  "isLineTerminator c = (let n = (of_char c :: nat) in n = 10 \<or> n = 13)"

text \<open>\<^verbatim>\<open>/.*kw/\<close> anchored at the start of the text.\<close>

fun dots_then :: "string \<Rightarrow> string \<Rightarrow> bool" where
  "dots_then [] kw = (kw = [])"
| "dots_then (c # s) kw = (prefix kw (c # s) \<or> (\<not> isLineTerminator c \<and> dots_then s kw))"

text \<open>\<^verbatim>\<open>/a.*b/\<close> somewhere in the text.\<close>

fun occurs_dots_then :: "string \<Rightarrow> string \<Rightarrow> string \<Rightarrow> bool" where
  "occurs_dots_then [] a b = (a = [] \<and> b = [])"
| "occurs_dots_then (c # s) a b =
     ((prefix a (c # s) \<and> dots_then (drop (length a) (c # s)) b) \<or> occurs_dots_then s a b)"

text \<open>
  The patterns carry the flag \<^verbatim>\<open>i\<close>; their letters are lower-case ASCII, so a pattern
  letter matches exactly the code units that \<open>toLowerChar\<close> sends to it, and the test
  runs on the lower-cased text. A pattern is a list of alternatives.
\<close>

datatype alternative = Lit string | LitNotWord string | LitDotsLit string string

fun alt_test :: "alternative \<Rightarrow> string \<Rightarrow> bool" where
  "alt_test (Lit kw) s = str_includes (toLowerCase s) kw"
| "alt_test (LitNotWord kw) s = occurs_not_before_word (toLowerCase s) kw"
| "alt_test (LitDotsLit a b) s = occurs_dots_then (toLowerCase s) a b"

definition pattern_test :: "alternative list \<Rightarrow> string \<Rightarrow> bool" where
  "pattern_test alts s = list_ex (\<lambda>a. alt_test a s) alts"

definition cityStatePatterns :: "(alternative list \<times> string list) list" where
  "cityStatePatterns =
     [([Lit ''san francisco'', Lit ''sf'', Lit ''bay area''], [''san francisco'', ''sf'', ''bay area'']),
      ([Lit ''new york'', Lit ''nyc'', LitNotWord ''ny''], [''new york'', ''nyc'', ''ny'']),
      ([Lit ''los angeles'', LitNotWord ''la''], [''los angeles'', ''la'']),
      ([LitDotsLit ''washington'' ''dc'', LitNotWord ''dc''], [''washington'', ''dc'']),
      ([Lit ''boston'', LitNotWord ''ma''], [''boston'', ''ma'']),
      ([Lit ''chicago'', LitNotWord ''il''], [''chicago'', ''il'']),
      ([Lit ''seattle'', LitNotWord ''wa''], [''seattle'', ''wa'']),
      ([Lit ''austin'', LitNotWord ''tx''], [''austin'', ''tx'']),
      ([Lit ''denver'', LitNotWord ''co''], [''denver'', ''co''])]"

text \<open>
  \<^verbatim>\<open>location.match(/,\s*([A-Z]{2})\b/)\<close>, which has no flag \<^verbatim>\<open>i\<close>: the leftmost comma that
  is followed by white space, two capitals A to Z and a word boundary. The result is the
  captured pair of letters.
\<close>

definition isUpperAZ :: "char \<Rightarrow> bool" where
  "isUpperAZ c = (let n = (of_char c :: nat) in 65 \<le> n \<and> n \<le> 90)"

definition state_here :: "string \<Rightarrow> string option" where
  "state_here s =
     (case dropWhile isWhiteSpace s of
        a # b # rest \<Rightarrow>
          if isUpperAZ a \<and> isUpperAZ b \<and> not_before_word rest then Some [a, b] else None
      | _ \<Rightarrow> None)"

fun stateMatch :: "string \<Rightarrow> string option" where
  "stateMatch [] = None"
| "stateMatch (c # s) =
     (if c = CHR '','' then
        (case state_here s of Some st \<Rightarrow> Some st | None \<Rightarrow> stateMatch s)
      else stateMatch s)"

subsection \<open>The tiers\<close>

text \<open>A loop \<^verbatim>\<open>for (const option of options) if (test(option)) return option.name\<close>.\<close>

definition first_option :: "(select_option \<Rightarrow> bool) \<Rightarrow> select_option list \<Rightarrow> string option" where
  "first_option test options = map_option name (find test options)"

text \<open>Tier 5, the loop over \<open>cityStatePatterns\<close>: a pattern that matches the location but
  finds no option falls through to the next pattern.\<close>

fun cityStateLoop ::
  "(alternative list \<times> string list) list \<Rightarrow> string \<Rightarrow> select_option list \<Rightarrow> string option" where
  "cityStateLoop [] location options = None"
| "cityStateLoop ((pattern, keywords) # rest) location options =
     (if pattern_test pattern location then
        (case first_option
                (\<lambda>option. list_ex (\<lambda>keyword. str_includes (toLowerCase (name option)) keyword) keywords)
                options of
           Some n \<Rightarrow> Some n
         | None \<Rightarrow> cityStateLoop rest location options)
      else cityStateLoop rest location options)"

text \<open>Tiers 1 to 6 on the lower-cased, trimmed location.\<close>

definition tier1 :: "string \<Rightarrow> select_option list \<Rightarrow> string option" where
  "tier1 location options = first_option (\<lambda>option. toLowerCase (name option) = location) options"

definition tier2 :: "string \<Rightarrow> select_option list \<Rightarrow> string option" where
  "tier2 location options =
     first_option (\<lambda>option. str_includes (toLowerCase (name option)) location) options"

definition tier3 :: "string \<Rightarrow> select_option list \<Rightarrow> string option" where
  "tier3 location options =
     first_option (\<lambda>option. str_includes location (toLowerCase (name option))) options"

definition tier4 :: "string \<Rightarrow> select_option list \<Rightarrow> string option" where
  "tier4 location options =
     (if str_includes location ''remote''
      then first_option (\<lambda>option. str_includes (toLowerCase (name option)) ''remote'') options
      else None)"

definition tier5 :: "string \<Rightarrow> select_option list \<Rightarrow> string option" where
  "tier5 location options = cityStateLoop cityStatePatterns location options"

definition tier6 :: "string \<Rightarrow> select_option list \<Rightarrow> string option" where
  "tier6 location options =
     (case stateMatch location of
        None \<Rightarrow> None
      | Some st \<Rightarrow>
          first_option (\<lambda>option. str_includes (toLowerCase (name option)) (toLowerCase st)) options)"

text \<open>The first tier of a list that returns does.\<close>

fun first_hit :: "(string \<Rightarrow> select_option list \<Rightarrow> string option) list \<Rightarrow>
    string \<Rightarrow> select_option list \<Rightarrow> string option" where
  "first_hit [] location options = None"
| "first_hit (t # ts) location options =
     (case t location options of Some n \<Rightarrow> Some n | None \<Rightarrow> first_hit ts location options)"

text \<open>
  \<^verbatim>\<open>findBestLocationMatch(extractedLocation, options)\<close>; \<open>None\<close> is \<^verbatim>\<open>null\<close>. An absent
  location or option list is guarded like the empty one.
\<close>

definition findBestLocationMatch :: "string \<Rightarrow> select_option list \<Rightarrow> string option" where
  "findBestLocationMatch extractedLocation options =
     (if extractedLocation = [] \<or> options = [] then None
      else first_hit [tier1, tier2, tier3, tier4, tier5, tier6]
             (trim (toLowerCase extractedLocation)) options)"

text \<open>
  The order of section 4.3 of the specification, for comparison: exact, then the option
  name inside the free text, then the free text inside an option name, then the remote,
  family and state-code rules.
\<close>

definition match_as_documented :: "string \<Rightarrow> select_option list \<Rightarrow> string option" where
  "match_as_documented freeText options =
     (if freeText = [] \<or> options = [] then None
      else first_hit [tier1, tier3, tier2, tier4, tier5, tier6]
             (trim (toLowerCase freeText)) options)"

definition opt :: "string \<Rightarrow> select_option" where
  "opt n = \<lparr>name = n, color = ''default''\<rparr>"

section \<open>Rendering a field\<close>

text \<open>What the popup knows of the page. A string that is missing is the empty string:
  the source tests each with \<^verbatim>\<open>||\<close> or \<^verbatim>\<open>&&\<close>, which take both alike.\<close>

record tab_info =
  url :: string
  title :: string
  roleName :: string
  companyName :: string
  location :: string
  selectedText :: string

definition isLocationField :: "string \<Rightarrow> bool" where
  "isLocationField n =
     (let lowercaseName = toLowerCase n
      in str_includes lowercaseName ''location'' \<or> str_includes lowercaseName ''where''
         \<or> str_includes lowercaseName ''city'' \<or> str_includes lowercaseName ''place'')"

definition isCompanyField :: "string \<Rightarrow> bool" where
  "isCompanyField n =
     (let lowercaseName = toLowerCase n
      in lowercaseName = ''company'' \<or> lowercaseName = ''company name''
         \<or> str_includes lowercaseName ''company''
         \<or> lowercaseName = ''organization'' \<or> lowercaseName = ''employer'')"

definition isCompanyNameField :: "string \<Rightarrow> bool" where
  "isCompanyNameField n =
     (let lowercaseName = toLowerCase n
      in if str_includes lowercaseName ''summary'' \<or> str_includes lowercaseName ''description''
            \<or> str_includes lowercaseName ''about''
         then False
         else lowercaseName = ''company'' \<or> lowercaseName = ''company name''
              \<or> lowercaseName = ''organization'' \<or> lowercaseName = ''employer'')"

definition isRawJdField :: "string \<Rightarrow> bool" where
  "isRawJdField n =
     (let lowercaseName = toLowerCase n
      in lowercaseName = ''raw jd'' \<or> lowercaseName = ''raw_jd'' \<or> lowercaseName = ''rawjd''
         \<or> lowercaseName = ''raw job description'' \<or> lowercaseName = ''raw_job_description''
         \<or> str_includes lowercaseName ''raw jd'' \<or> str_includes lowercaseName ''raw_jd'')"

definition isRoleField :: "string \<Rightarrow> bool" where
  "isRoleField n =
     (let lowercaseName = toLowerCase n
      in lowercaseName = ''role'' \<or> lowercaseName = ''role name'' \<or> lowercaseName = ''job title''
         \<or> lowercaseName = ''position'' \<or> lowercaseName = ''title''
         \<or> str_includes lowercaseName ''job title'' \<or> str_includes lowercaseName ''position'')"

subsection \<open>The value an element holds\<close>

text \<open>
  Assigning to the \<^verbatim>\<open>value\<close> of an \<^verbatim>\<open>input\<close> runs the value sanitization of its type, and
  the value read back is the sanitized one. Types \<^verbatim>\<open>text\<close> and \<^verbatim>\<open>tel\<close> strip the line breaks
  LF and CR; types \<^verbatim>\<open>url\<close> and \<^verbatim>\<open>email\<close> strip the line breaks and then the leading and
  trailing ASCII white space (TAB, LF, FF, CR, SP).
\<close>

definition isNewline :: "char \<Rightarrow> bool" where
  "isNewline c = (let n = (of_char c :: nat) in n = 10 \<or> n = 13)"

definition strip_newlines :: "string \<Rightarrow> string" where
  "strip_newlines s = filter (\<lambda>c. \<not> isNewline c) s"

definition isAsciiWhitespace :: "char \<Rightarrow> bool" where
  "isAsciiWhitespace c =
     (let n = (of_char c :: nat) in n = 9 \<or> n = 10 \<or> n = 12 \<or> n = 13 \<or> n = 32)"

definition strip_ascii_whitespace :: "string \<Rightarrow> string" where
  "strip_ascii_whitespace s =
     rev (dropWhile isAsciiWhitespace (rev (dropWhile isAsciiWhitespace s)))"

definition text_input_value :: "string \<Rightarrow> string" where
  "text_input_value v = strip_newlines v"

definition trimmed_input_value :: "string \<Rightarrow> string" where
  "trimmed_input_value v = strip_ascii_whitespace (strip_newlines v)"

text \<open>A \<^verbatim>\<open>textarea\<close> keeps what it is assigned and reads it back with the line breaks
  normalized: CR LF becomes LF, and a CR that is left becomes LF.\<close>

fun normalize_newlines :: "string \<Rightarrow> string" where
  "normalize_newlines [] = []"
| "normalize_newlines [c] = (if c = CHR 0x0D then [CHR 0x0A] else [c])"
| "normalize_newlines (c # d # s) =
     (if c = CHR 0x0D \<and> d = CHR 0x0A then CHR 0x0A # normalize_newlines s
      else if c = CHR 0x0D then CHR 0x0A # normalize_newlines (d # s)
      else c # normalize_newlines (d # s))"

definition textarea_value :: "string \<Rightarrow> string" where
  "textarea_value v = normalize_newlines v"

text \<open>
  An input of type \<^verbatim>\<open>number\<close> keeps a valid floating-point number and turns anything else
  into the empty string. A valid floating-point number is an optional minus sign, then
  digits, a fraction of a dot and digits, or both, then an optional exponent of \<^verbatim>\<open>e\<close> or
  \<^verbatim>\<open>E\<close>, an optional sign and digits.
\<close>

definition valid_exponent :: "string \<Rightarrow> bool" where
  "valid_exponent s =
     (case s of
        [] \<Rightarrow> True
      | e # r \<Rightarrow>
          (e = CHR ''e'' \<or> e = CHR ''E'')
          \<and> (let ds = (case r of
                         [] \<Rightarrow> []
                       | c # r' \<Rightarrow> if c = CHR ''-'' \<or> c = CHR ''+'' then r' else r)
             in ds \<noteq> [] \<and> list_all isDigit ds))"

definition valid_floating_point_number :: "string \<Rightarrow> bool" where
  "valid_floating_point_number s =
     (let unsigned = (case s of [] \<Rightarrow> [] | c # r \<Rightarrow> if c = CHR ''-'' then r else s);
          ip = takeWhile isDigit unsigned;
          r1 = dropWhile isDigit unsigned
      in case r1 of
           [] \<Rightarrow> ip \<noteq> []
         | c # r2 \<Rightarrow>
             if c = CHR ''.'' then
               takeWhile isDigit r2 \<noteq> [] \<and> valid_exponent (dropWhile isDigit r2)
             else ip \<noteq> [] \<and> valid_exponent r1)"

definition number_input_value :: "string \<Rightarrow> string" where
  "number_input_value v = (if valid_floating_point_number v then v else [])"

text \<open>
  An input of type \<^verbatim>\<open>date\<close> keeps a valid date string and turns anything else into the
  empty string. A valid date string is a year of four or more digits, greater than zero,
  a month and a day of two digits each, separated by hyphens, that name a day of the
  proleptic Gregorian calendar.
\<close>

definition digits_value :: "string \<Rightarrow> nat" where
  "digits_value ds = foldl (\<lambda>a c. 10 * a + (of_char c - 48)) 0 ds"

definition days_in_month :: "nat \<Rightarrow> nat \<Rightarrow> nat" where
  "days_in_month y m =
     (if m = 2 then (if y mod 400 = 0 \<or> (y mod 4 = 0 \<and> y mod 100 \<noteq> 0) then 29 else 28)
      else if m = 4 \<or> m = 6 \<or> m = 9 \<or> m = 11 then 30
      else 31)"

definition valid_date_string :: "string \<Rightarrow> bool" where
  "valid_date_string s =
     (let ys = takeWhile isDigit s; r = dropWhile isDigit s
      in 4 \<le> length ys \<and> 0 < digits_value ys
         \<and> length r = 6 \<and> r ! 0 = CHR ''-'' \<and> isDigit (r ! 1) \<and> isDigit (r ! 2)
         \<and> r ! 3 = CHR ''-'' \<and> isDigit (r ! 4) \<and> isDigit (r ! 5)
         \<and> (let m = digits_value [r ! 1, r ! 2]; d = digits_value [r ! 4, r ! 5]
            in 1 \<le> m \<and> m \<le> 12 \<and> 1 \<le> d \<and> d \<le> days_in_month (digits_value ys) m))"

definition date_input_value :: "string \<Rightarrow> string" where
  "date_input_value v = (if valid_date_string v then v else [])"

subsection \<open>The renderers\<close>

text \<open>
  Each renderer is given \<open>existing\<close>, the value of \<^verbatim>\<open>existingData && existingData[name]\<close>:
  \<open>None\<close> when no row was found for the page or the row has no entry for the column,
  and otherwise the value that \<^verbatim>\<open>parseNotionPage\<close> produced with the parser of the column's
  type. The result is the value the rendered element holds at the start.
\<close>

definition truthy :: "string option \<Rightarrow> bool" where
  "truthy existing = (case existing of None \<Rightarrow> False | Some v \<Rightarrow> v \<noteq> [])"

text \<open>The title is an input of type \<^verbatim>\<open>text\<close>.\<close>

definition renderTitleField :: "string \<Rightarrow> tab_info \<Rightarrow> string option \<Rightarrow> string" where
  "renderTitleField n tab existing =
     (let defaultValue =
            (if \<not> truthy existing then
               (if isRoleField n \<and> roleName tab \<noteq> [] then roleName tab
                else if isCompanyNameField n \<and> companyName tab \<noteq> [] then companyName tab
                else title tab)
             else title tab)
      in text_input_value (if truthy existing then the existing else defaultValue))"

text \<open>A rich text is an input of type \<^verbatim>\<open>text\<close> for a company-name field and a
  \<^verbatim>\<open>textarea\<close> otherwise.\<close>

definition renderRichTextField :: "string \<Rightarrow> tab_info \<Rightarrow> string option \<Rightarrow> string" where
  "renderRichTextField n tabInfo existing =
     (let defaultValue =
            (if \<not> truthy existing then
               (if isRoleField n \<and> roleName tabInfo \<noteq> [] then roleName tabInfo
                else if isCompanyNameField n \<and> companyName tabInfo \<noteq> [] then companyName tabInfo
                else if isRawJdField n \<and> selectedText tabInfo \<noteq> [] then selectedText tabInfo
                else [])
             else []);
          assigned = (if truthy existing then the existing else defaultValue)
      in if isCompanyNameField n then text_input_value assigned else textarea_value assigned)"

text \<open>Inputs of type \<^verbatim>\<open>url\<close>, \<^verbatim>\<open>email\<close> and \<^verbatim>\<open>tel\<close>.\<close>

definition renderUrlField :: "tab_info \<Rightarrow> string option \<Rightarrow> string" where
  "renderUrlField tab existing =
     trimmed_input_value (if truthy existing then the existing else url tab)"

definition renderEmailField :: "string option \<Rightarrow> string" where
  "renderEmailField existing = trimmed_input_value (if truthy existing then the existing else [])"

definition renderPhoneField :: "string option \<Rightarrow> string" where
  "renderPhoneField existing = text_input_value (if truthy existing then the existing else [])"

text \<open>
  The number input is assigned the existing Number when the entry is neither missing nor
  the empty string; the assignment prints the Number. The printing of a Number is the
  parameter \<open>numberToString\<close>.
\<close>

definition renderNumberField :: "(jsnum \<Rightarrow> string) \<Rightarrow> parsed_number option \<Rightarrow> string" where
  "renderNumberField numberToString existing =
     (case existing of
        None \<Rightarrow> []
      | Some ParsedEmpty \<Rightarrow> []
      | Some (ParsedNumber x) \<Rightarrow> number_input_value (numberToString x))"

text \<open>
  The date input is assigned the date part of \<^verbatim>\<open>new Date(dateValue).toISOString()\<close> when
  the existing value parses as a date and the existing value itself when it does not.
  The parameter \<open>dateToISO\<close> is that parse: the date part of the ISO string, or \<open>None\<close> for
  an invalid date.
\<close>

definition renderDateField :: "(string \<Rightarrow> string option) \<Rightarrow> string option \<Rightarrow> string" where
  "renderDateField dateToISO existing =
     (if truthy existing then
        date_input_value
          (case dateToISO (the existing) of Some d \<Rightarrow> d | None \<Rightarrow> the existing)
      else [])"

definition renderCheckboxField :: "bool option \<Rightarrow> bool" where
  "renderCheckboxField existing = (case existing of None \<Rightarrow> False | Some b \<Rightarrow> b)"

text \<open>
  A \<^verbatim>\<open>select\<close> element holds the empty option and one option for each option of the column.
  Assigning to its \<^verbatim>\<open>value\<close> selects the option with that value; when there is none,
  nothing is selected and the value reads as the empty string.
\<close>

definition option_values :: "select_option list \<Rightarrow> string list" where
  "option_values options = [] # map name options"

definition set_select_value :: "string list \<Rightarrow> string \<Rightarrow> string" where
  "set_select_value values v = (if v \<in> set values then v else [])"

definition renderSelectField ::
  "string \<Rightarrow> select_option list \<Rightarrow> tab_info \<Rightarrow> string option \<Rightarrow> string" where
  "renderSelectField n options tabInfo existing =
     (let valueToSet =
            (if truthy existing then existing
             else if isLocationField n \<and> location tabInfo \<noteq> [] then
               findBestLocationMatch (location tabInfo) options
             else if isCompanyField n \<and> companyName tabInfo \<noteq> [] then
               first_option
                 (\<lambda>option. toLowerCase (name option) = toLowerCase (companyName tabInfo)) options
             else None)
      in if truthy valueToSet then set_select_value (option_values options) (the valueToSet)
         else [])"

definition renderStatusField ::
  "string \<Rightarrow> select_option list \<Rightarrow> tab_info \<Rightarrow> string option \<Rightarrow> string" where
  "renderStatusField n options tabInfo existing =
     (let valueToSet =
            (if truthy existing then existing
             else if isLocationField n \<and> location tabInfo \<noteq> [] then
               findBestLocationMatch (location tabInfo) options
             else if isCompanyField n \<and> companyName tabInfo \<noteq> [] then
               first_option
                 (\<lambda>option. toLowerCase (name option) = toLowerCase (companyName tabInfo)) options
             else None)
      in if truthy valueToSet then set_select_value (option_values options) (the valueToSet)
         else [])"

text \<open>A multi-select starts with the existing values in its hidden input.\<close>

definition renderMultiSelectField :: "string list option \<Rightarrow> string list" where
  "renderMultiSelectField existing = (case existing of None \<Rightarrow> [] | Some vs \<Rightarrow> vs)"

section \<open>The form and the payload\<close>

datatype column_type =
  Title | RichText | Url | Number | Checkbox | Select | MultiSelect | Date | Email
  | PhoneNumber | Status

text \<open>
  A rendered \<^verbatim>\<open>.form-group\<close>: the name and type in its data attributes and the state of
  its widget. \<open>input_value\<close> is the value of its input, textarea or select,
  \<open>select_values\<close> the values of the options of a select (the empty one first),
  \<open>checked\<close> the state of a checkbox and \<open>hidden_values\<close> the JSON array in the hidden
  input of a multi-select.
\<close>

record form_group =
  propertyName :: string
  propertyType :: column_type
  input_value :: string
  select_values :: "string list"
  checked :: bool
  hidden_values :: "string list"

datatype form_value =
  VStr string | VBool bool | VList "string list" | VNum jsnum | VNull

fun getFieldValue :: "form_group \<Rightarrow> column_type \<Rightarrow> form_value" where
  "getFieldValue grp Checkbox = VBool (checked grp)"
| "getFieldValue grp MultiSelect = VList (hidden_values grp)"
| "getFieldValue grp Number =
     (if input_value grp \<noteq> [] then VNum (parseFloat (input_value grp)) else VNull)"
| "getFieldValue grp _ = VStr (input_value grp)"

datatype wire_value =
  WTitle "text_run list"
  | WRichText "text_run list"
  | WUrl "string option"
  | WNumber "jsnum option"
  | WCheckbox bool
  | WSelect "string option"
  | WMultiSelect "string list"
  | WDate "string option"
  | WEmail "string option"
  | WPhoneNumber "string option"
  | WStatus "string option"

text \<open>
  \<^verbatim>\<open>PropertyFormatters[type](value)\<close> for the value that \<open>getFieldValue\<close> reads for that
  type: a boolean for a checkbox, a list for a multi-select, a Number for a number, a
  string for the rest. \<open>None\<close> is a pair that \<open>getFieldValue\<close> never produces.
\<close>

fun PropertyFormatters :: "column_type \<Rightarrow> form_value \<Rightarrow> wire_value option" where
  "PropertyFormatters Title (VStr v) = Some (WTitle (PropertyFormatters_title v))"
| "PropertyFormatters RichText (VStr v) = Some (WRichText (PropertyFormatters_rich_text v))"
| "PropertyFormatters Url (VStr v) = Some (WUrl (PropertyFormatters_url v))"
| "PropertyFormatters Number (VNum x) = Some (WNumber (PropertyFormatters_number (NumValue x)))"
| "PropertyFormatters Checkbox (VBool b) = Some (WCheckbox (PropertyFormatters_checkbox b))"
| "PropertyFormatters Select (VStr v) = Some (WSelect (PropertyFormatters_select v))"
| "PropertyFormatters MultiSelect (VList vs) =
     Some (WMultiSelect (PropertyFormatters_multi_select vs))"
| "PropertyFormatters Date (VStr v) = Some (WDate (PropertyFormatters_date v))"
| "PropertyFormatters Email (VStr v) = Some (WEmail (PropertyFormatters_email v))"
| "PropertyFormatters PhoneNumber (VStr v) =
     Some (WPhoneNumber (PropertyFormatters_phone_number v))"
| "PropertyFormatters Status (VStr v) = Some (WStatus (PropertyFormatters_status v))"
| "PropertyFormatters _ _ = None"

text \<open>\<^verbatim>\<open>value !== '' && value !== null && value !== undefined\<close>.\<close>

definition has_value :: "form_value \<Rightarrow> bool" where
  "has_value v = (v \<noteq> VStr [] \<and> v \<noteq> VNull)"

text \<open>
  The body of the loop of \<^verbatim>\<open>buildPayload\<close> for one group, on the payload built so
  far. In its last branch \<^verbatim>\<open>value\<close> is the empty string, so
  \<^verbatim>\<open>value || 'Untitled'\<close> is the placeholder.
\<close>

definition payload_step ::
  "string set \<Rightarrow> (string \<rightharpoonup> wire_value) \<Rightarrow> form_group \<Rightarrow> (string \<rightharpoonup> wire_value)" where
  "payload_step hiddenFields properties grp =
     (let n = propertyName grp in
      if n \<in> hiddenFields then properties
      else
        (let type = propertyType grp;
             v = getFieldValue grp type
         in if has_value v then
              (case PropertyFormatters type v of
                 Some w \<Rightarrow> properties(n \<mapsto> w)
               | None \<Rightarrow> properties)
            else if type = Title then
              properties(n \<mapsto> WTitle (PropertyFormatters_title ''Untitled''))
            else properties))"

definition buildPayload :: "string set \<Rightarrow> form_group list \<Rightarrow> (string \<rightharpoonup> wire_value)" where
  "buildPayload hiddenFields formGroups = foldl (payload_step hiddenFields) Map.empty formGroups"

section \<open>Submitting\<close>

text \<open>
  The calls the popup makes to the store, and the part of its state that submitting reads
  and writes: the id of the row being edited (\<open>None\<close> is \<^verbatim>\<open>null\<close>), the rendered form, the
  hidden field names, the calls issued so far and the state on display.
\<close>

datatype api_call =
  CreatePage "string \<rightharpoonup> wire_value"
  | UpdatePage string "string \<rightharpoonup> wire_value"

datatype screen = FormScreen | SuccessScreen

record session =
  existingPageId :: "string option"
  form :: "form_group list"
  hidden :: "string set"
  api_calls :: "api_call list"
  display :: screen

text \<open>The answer of the store to a call: \<open>Inl\<close> an error, which the client throws, or
  \<open>Inr\<close> the id of the row.\<close>

type_synonym api_result = "string + string"

definition showSuccess :: "session \<Rightarrow> session" where
  "showSuccess s = s\<lparr>display := SuccessScreen\<rparr>"

definition showForm :: "session \<Rightarrow> session" where
  "showForm s = s\<lparr>display := FormScreen\<rparr>"

text \<open>
  \<^verbatim>\<open>handleSubmit\<close>: one call, chosen by \<^verbatim>\<open>if (existingPageId)\<close>; the success screen when
  the call returns, an alert and the same screen when it throws.
\<close>

definition handleSubmit :: "api_result \<Rightarrow> session \<Rightarrow> session" where
  "handleSubmit result s =
     (let properties = buildPayload (hidden s) (form s) in
      if truthy (existingPageId s) then
        (let s' = s\<lparr>api_calls := api_calls s @ [UpdatePage (the (existingPageId s)) properties]\<rparr>
         in case result of Inl err \<Rightarrow> s' | Inr pageId \<Rightarrow> showSuccess s')
      else
        (let s' = s\<lparr>api_calls := api_calls s @ [CreatePage properties]\<rparr>
         in case result of Inl err \<Rightarrow> s' | Inr pageId \<Rightarrow> showSuccess s'))"

text \<open>
  \<^verbatim>\<open>handleBackgroundSave\<close>, the save that follows an AI fill: the same choice, the form
  stays on display, and after a create \<^verbatim>\<open>existingPageId = result.id\<close>.
\<close>

definition handleBackgroundSave :: "api_result \<Rightarrow> session \<Rightarrow> session" where
  "handleBackgroundSave result s =
     (let properties = buildPayload (hidden s) (form s) in
      if truthy (existingPageId s) then
        s\<lparr>api_calls := api_calls s @ [UpdatePage (the (existingPageId s)) properties]\<rparr>
      else
        (let s' = s\<lparr>api_calls := api_calls s @ [CreatePage properties]\<rparr>
         in case result of Inl err \<Rightarrow> s' | Inr pageId \<Rightarrow> s'\<lparr>existingPageId := Some pageId\<rparr>))"

text \<open>
  The keyboard shortcut \<^verbatim>\<open>TRIGGER_QUICK_SAVE\<close> shows the form when it is hidden and
  dispatches a submit event.
\<close>

definition quickSave :: "api_result \<Rightarrow> session \<Rightarrow> session" where
  "quickSave result s = handleSubmit result (if display s \<noteq> FormScreen then showForm s else s)"

section \<open>Filling a field from the AI response\<close>

text \<open>
  The branch of \<^verbatim>\<open>fillFormField\<close> for the types \<^verbatim>\<open>select\<close> and \<^verbatim>\<open>status\<close>, for a proposal
  \<open>v\<close> that is a string: the first option of the element whose value equals the proposal
  without regard to case is selected. The result is the group and the flag \<^verbatim>\<open>filled\<close>.
\<close>

definition fillSelect :: "form_group \<Rightarrow> string \<Rightarrow> form_group \<times> bool" where
  "fillSelect grp v =
     (if v \<noteq> [] then
        (case find (\<lambda>opt. toLowerCase opt = toLowerCase v) (select_values grp) of
           Some m \<Rightarrow> (grp\<lparr>input_value := set_select_value (select_values grp) m\<rparr>, True)
         | None \<Rightarrow> (grp, False))
      else (grp, False))"

text \<open>
  The switch on the type of the group. The branches of the other types write the proposal
  into a text, number or date input, a checkbox or the tags of a multi-select; they are
  the parameter \<open>other\<close>.
\<close>

definition fillGroup ::
  "(form_group \<Rightarrow> string \<Rightarrow> form_group \<times> bool) \<Rightarrow> form_group \<Rightarrow> string \<Rightarrow> form_group \<times> bool" where
  "fillGroup other grp v =
     (if propertyType grp = Select \<or> propertyType grp = Status then fillSelect grp v
      else other grp v)"

text \<open>
  \<^verbatim>\<open>fillFormField(fieldName, value)\<close> on the form: the first group with that name is
  filled; without such a group nothing changes and the result is \<^verbatim>\<open>false\<close>. The source
  finds the group with the selector \<^verbatim>\<open>.form-group[data-property-name="..."]\<close>, into which
  it writes the name as it is: for a name without a double quote or a backslash that is
  the first group whose name equals it.
\<close>

fun fillFormField ::
  "(form_group \<Rightarrow> string \<Rightarrow> form_group \<times> bool) \<Rightarrow> form_group list \<Rightarrow> string \<Rightarrow> string
     \<Rightarrow> form_group list \<times> bool" where
  "fillFormField other [] fieldName v = ([], False)"
| "fillFormField other (grp # rest) fieldName v =
     (if propertyName grp = fieldName then
        (case fillGroup other grp v of (grp', filled) \<Rightarrow> (grp' # rest, filled))
      else
        (case fillFormField other rest fieldName v of (rest', filled) \<Rightarrow> (grp # rest', filled)))"

section \<open>Example inputs\<close>

text \<open>Groups of a rendered form, a page and a fresh session, used where a statement is
  evaluated.\<close>

definition tags_group :: form_group where
  "tags_group = \<lparr>propertyName = ''Tags'', propertyType = MultiSelect, input_value = [],
     select_values = [], checked = False, hidden_values = []\<rparr>"

definition name_group :: form_group where
  "name_group = \<lparr>propertyName = ''Name'', propertyType = Title, input_value = [],
     select_values = [], checked = False, hidden_values = []\<rparr>"

definition notes_group :: form_group where
  "notes_group = \<lparr>propertyName = ''Notes'', propertyType = RichText, input_value = ''private'',
     select_values = [], checked = False, hidden_values = []\<rparr>"

definition status_group :: form_group where
  "status_group = \<lparr>propertyName = ''Status'', propertyType = Select, input_value = [],
     select_values = option_values [opt ''To Review'', opt ''Applied''], checked = False,
     hidden_values = []\<rparr>"

definition example_tab :: tab_info where
  "example_tab = \<lparr>url = ''https://jobs.acme.test/123'', title = ''Backend Engineer | Acme'',
     roleName = ''Backend Engineer'', companyName = ''Acme'', location = ''Remote'',
     selectedText = ''We are hiring''\<rparr>"

definition line_break_title :: string where
  "line_break_title = ''Staff'' @ [CHR 0x0A] @ ''Engineer''"

definition new_session :: session where
  "new_session = \<lparr>existingPageId = None, form = [name_group], hidden = {}, api_calls = [],
     display = FormScreen\<rparr>"

definition no_other_branch :: "form_group \<Rightarrow> string \<Rightarrow> form_group \<times> bool" where
  "no_other_branch grp v = (grp, False)"

section \<open>Chunking of rich text\<close>

lemma concat_rich_text_blocks:
  "concat (map text_content (rich_text_blocks i content)) = drop i content"
proof (induction i content rule: rich_text_blocks.induct)
  case (1 i content)
  show ?case
  proof (cases "i < length content")
    case True
    have "concat (map text_content (rich_text_blocks i content)) =
          take MAX_CHARS (drop i content) @ drop (i + MAX_CHARS) content"
      using True "1.IH" by (subst rich_text_blocks.simps) (simp add: sent_run_def)
    also have "\<dots> = drop i content"
      by (metis add.commute append_take_drop_id drop_drop)
    finally show ?thesis .
  next
    case False
    then show ?thesis by (subst rich_text_blocks.simps) simp
  qed
qed

lemma length_rich_text_blocks:
  "r \<in> set (rich_text_blocks i content) \<Longrightarrow> length (text_content r) \<le> MAX_CHARS"
proof (induction i content rule: rich_text_blocks.induct)
  case (1 i content)
  from "1.prems" show ?case
    by (subst (asm) rich_text_blocks.simps) (auto simp: sent_run_def "1.IH" split: if_splits)
qed

lemma rich_text_blocks_empty: "rich_text_blocks 0 [] = []"
  by (subst rich_text_blocks.simps) simp

lemma rich_text_blocks_nonempty:
  "v \<noteq> [] \<Longrightarrow> rich_text_blocks 0 v = sent_run (take MAX_CHARS v) # rich_text_blocks MAX_CHARS v"
  by (subst rich_text_blocks.simps) simp

lemma rich_text_short:
  "length v \<le> MAX_CHARS \<Longrightarrow> PropertyFormatters_rich_text v = [sent_run v]"
proof (cases "v = []")
  case True
  then show ?thesis by (simp add: PropertyFormatters_rich_text_def rich_text_blocks_empty)
next
  case False
  assume "length v \<le> MAX_CHARS"
  then have "rich_text_blocks MAX_CHARS v = []"
    by (subst rich_text_blocks.simps) simp
  with False \<open>length v \<le> MAX_CHARS\<close> show ?thesis
    by (simp add: PropertyFormatters_rich_text_def rich_text_blocks_nonempty)
qed

text \<open>
  Claim C2. For every input string the rich-text serializer produces runs of at most 2000
  code units each whose contents, concatenated in order, are the input; it always
  produces at least one run, and for the empty string exactly one run with empty content.
\<close>

theorem rich_text_chunks:
  "concat (map text_content (PropertyFormatters_rich_text v)) = v
   \<and> (\<forall>r \<in> set (PropertyFormatters_rich_text v). length (text_content r) \<le> 2000)
   \<and> PropertyFormatters_rich_text v \<noteq> []
   \<and> PropertyFormatters_rich_text [] = [sent_run []]"
proof -
  have a: "concat (map text_content (PropertyFormatters_rich_text v)) = v"
    by (simp add: PropertyFormatters_rich_text_def Let_def concat_rich_text_blocks)
       (metis concat_rich_text_blocks drop0 concat.simps(1) list.simps(8) sent_run_def
          text_run.select_convs(1))
  have b: "\<forall>r \<in> set (PropertyFormatters_rich_text v). length (text_content r) \<le> 2000"
    using length_rich_text_blocks [of _ 0 v]
    by (auto simp: PropertyFormatters_rich_text_def Let_def MAX_CHARS_def sent_run_def)
  have c: "PropertyFormatters_rich_text v \<noteq> []"
    by (simp add: PropertyFormatters_rich_text_def Let_def)
  have d: "PropertyFormatters_rich_text [] = [sent_run []]"
    by (simp add: PropertyFormatters_rich_text_def rich_text_blocks_empty)
  from a b c d show ?thesis by blast
qed

theorem rich_text_chunks_witness:
  "sent_run (replicate 2000 CHR ''a'') \<in> set (PropertyFormatters_rich_text (replicate 2001 CHR ''a''))
   \<and> length (text_content (sent_run (replicate 2000 CHR ''a''))) \<le> 2000
   \<and> concat (map text_content (PropertyFormatters_rich_text (replicate 2001 CHR ''a'')))
       = replicate 2001 CHR ''a''"
proof -
  have m: "sent_run (replicate 2000 CHR ''a'')
      \<in> set (PropertyFormatters_rich_text (replicate 2001 CHR ''a''))"
    by (simp add: PropertyFormatters_rich_text_def rich_text_blocks_nonempty MAX_CHARS_def)
  from m rich_text_chunks [of "replicate 2001 CHR ''a''"] show ?thesis by blast
qed

section \<open>Round trip of rich text\<close>

text \<open>
  The parser reads the plain text of the first run only, so what comes back from a
  stored rich text is the first block of the serializer.
\<close>

lemma rich_text_parse_first_block:
  "PropertyParsers_rich_text (store_echo (PropertyFormatters_rich_text v)) = take MAX_CHARS v"
proof (cases "v = []")
  case True
  then show ?thesis
    by (simp add: PropertyFormatters_rich_text_def rich_text_blocks_empty
        PropertyParsers_rich_text_def first_plain_text_def store_echo_def stored_run_def sent_run_def)
next
  case False
  then show ?thesis
    by (simp add: PropertyFormatters_rich_text_def rich_text_blocks_nonempty
        PropertyParsers_rich_text_def first_plain_text_def store_echo_def stored_run_def sent_run_def)
qed

text \<open>Where the round trip does hold: rich text of at most 2000 code units, titles, and
  the types whose wire value is the form value or \<^verbatim>\<open>null\<close>.\<close>

lemma rich_text_roundtrip_short:
  "length v \<le> MAX_CHARS \<Longrightarrow>
   PropertyParsers_rich_text (store_echo (PropertyFormatters_rich_text v)) = v"
  by (simp add: rich_text_parse_first_block)

lemma title_roundtrip:
  "PropertyParsers_title (store_echo (PropertyFormatters_title v)) = v"
  by (simp add: PropertyParsers_title_def first_plain_text_def store_echo_def stored_run_def
      PropertyFormatters_title_def sent_run_def)

lemma plain_roundtrips:
  "PropertyParsers_url (PropertyFormatters_url v) = v
   \<and> PropertyParsers_email (PropertyFormatters_email v) = v
   \<and> PropertyParsers_phone_number (PropertyFormatters_phone_number v) = v
   \<and> PropertyParsers_select (PropertyFormatters_select v) = v
   \<and> PropertyParsers_status (PropertyFormatters_status v) = v
   \<and> PropertyParsers_date (PropertyFormatters_date v) = v
   \<and> PropertyParsers_checkbox (PropertyFormatters_checkbox b) = b
   \<and> PropertyParsers_multi_select (PropertyFormatters_multi_select vs) = vs"
  by (simp add: PropertyParsers_url_def PropertyFormatters_url_def
      PropertyParsers_email_def PropertyFormatters_email_def
      PropertyParsers_phone_number_def PropertyFormatters_phone_number_def
      PropertyParsers_select_def PropertyFormatters_select_def
      PropertyParsers_status_def PropertyFormatters_status_def
      PropertyParsers_date_def PropertyFormatters_date_def
      PropertyParsers_checkbox_def PropertyFormatters_checkbox_def
      PropertyParsers_multi_select_def PropertyFormatters_multi_select_def)

text \<open>
  Claim C1, at a string of 2001 code units: the serializer splits it into two runs, the
  store returns both with their plain text, and the parser yields the first 2000 code
  units, not the string.
\<close>

theorem rich_text_roundtrip_truncates:
  "PropertyParsers_rich_text (store_echo (PropertyFormatters_rich_text (replicate 2001 CHR ''a'')))
     = replicate 2000 CHR ''a''
   \<and> PropertyParsers_rich_text (store_echo (PropertyFormatters_rich_text (replicate 2001 CHR ''a'')))
     \<noteq> replicate 2001 CHR ''a''"
proof -
  have e: "PropertyParsers_rich_text (store_echo (PropertyFormatters_rich_text (replicate 2001 CHR ''a'')))
     = replicate 2000 CHR ''a''"
    by (simp add: rich_text_parse_first_block MAX_CHARS_def)
  have "length (replicate 2000 CHR ''a'') \<noteq> length (replicate 2001 CHR ''a'')" by simp
  then have "replicate 2000 CHR ''a'' \<noteq> replicate 2001 CHR ''a''" by metis
  with e show ?thesis by simp
qed

section \<open>The matcher selects among the options\<close>

lemma first_option_in_options:
  "first_option test options = Some n \<Longrightarrow> \<exists>option \<in> set options. n = name option"
  by (auto simp: first_option_def find_Some_iff)

lemma cityStateLoop_in_options:
  "cityStateLoop patterns loc options = Some n \<Longrightarrow> \<exists>option \<in> set options. n = name option"
proof (induction patterns)
  case Nil
  then show ?case by simp
next
  case (Cons p patterns)
  obtain pat kws where p: "p = (pat, kws)" by (cases p)
  from Cons.prems show ?case
    unfolding p
    by (auto split: if_splits option.splits dest: first_option_in_options Cons.IH)
qed

lemma tiers_in_options:
  assumes "t \<in> set [tier1, tier2, tier3, tier4, tier5, tier6]"
    and "t loc options = Some n"
  shows "\<exists>option \<in> set options. n = name option"
  using assms
  by (auto simp: tier1_def tier2_def tier3_def tier4_def tier5_def tier6_def
      split: if_splits option.splits
      dest: first_option_in_options cityStateLoop_in_options)

lemma first_hit_in_options:
  assumes "\<And>t loc n. t \<in> set ts \<Longrightarrow> t loc options = Some n \<Longrightarrow> \<exists>option \<in> set options. n = name option"
    and "first_hit ts loc options = Some n"
  shows "\<exists>option \<in> set options. n = name option"
  using assms
proof (induction ts)
  case Nil
  then show ?case by simp
next
  case (Cons t ts)
  show ?case
  proof (cases "t loc options")
    case None
    with Cons.prems(2) have "first_hit ts loc options = Some n" by simp
    with Cons.IH Cons.prems(1) show ?thesis by (meson list.set_intros(2))
  next
    case (Some m)
    with Cons.prems(2) have "m = n" by simp
    with Some Cons.prems(1) [of t loc n] show ?thesis by simp
  qed
qed

text \<open>
  Claim C10. For every free text and every option list the matcher returns \<^verbatim>\<open>null\<close> or the
  name of one of the options it was given, whichever tier selects it; for an empty option
  list and for an empty free text it returns \<^verbatim>\<open>null\<close>.
\<close>

theorem match_is_an_option:
  "(findBestLocationMatch extractedLocation options = None
      \<or> (\<exists>option \<in> set options.
            findBestLocationMatch extractedLocation options = Some (name option)))
   \<and> findBestLocationMatch extractedLocation [] = None
   \<and> findBestLocationMatch [] options = None"
proof -
  have "\<exists>option \<in> set options. n = name option"
    if "findBestLocationMatch extractedLocation options = Some n" for n
  proof -
    from that have "first_hit [tier1, tier2, tier3, tier4, tier5, tier6]
        (trim (toLowerCase extractedLocation)) options = Some n"
      by (simp add: findBestLocationMatch_def split: if_splits)
    then show ?thesis
      using first_hit_in_options [of "[tier1, tier2, tier3, tier4, tier5, tier6]" options]
        tiers_in_options by blast
  qed
  then have "findBestLocationMatch extractedLocation options = None
      \<or> (\<exists>option \<in> set options.
            findBestLocationMatch extractedLocation options = Some (name option))"
    by (cases "findBestLocationMatch extractedLocation options") auto
  then show ?thesis by (simp add: findBestLocationMatch_def)
qed

theorem match_is_an_option_witness:
  "opt ''Remote'' \<in> set [opt ''Remote'', opt ''Onsite'']
   \<and> findBestLocationMatch ''fully remote role'' [opt ''Remote'', opt ''Onsite'']
       = Some (name (opt ''Remote''))
   \<and> findBestLocationMatch ''fully remote role'' [] = None"
proof -
  have "findBestLocationMatch ''fully remote role'' [opt ''Remote'', opt ''Onsite'']
       = Some (name (opt ''Remote''))"
    by code_simp
  with match_is_an_option [of "''fully remote role''" "[opt ''Remote'', opt ''Onsite'']"]
    match_is_an_option [of "''fully remote role''" "[]"]
  show ?thesis by simp
qed

section \<open>The state-code tier\<close>

text \<open>
  The location is lower-cased before the tiers run, and the pattern of tier 6 asks for
  two capitals without the flag \<^verbatim>\<open>i\<close>: it matches nothing that \<open>toLowerCase\<close> returns.
\<close>

lemma toLowerChar_not_upper: "\<not> isUpperAZ (toLowerChar c)"
  by (auto simp: isUpperAZ_def toLowerChar_def Let_def)

lemma state_here_no_capital:
  assumes "\<forall>c \<in> set s. \<not> isUpperAZ c"
  shows "state_here s = None"
proof -
  have "\<forall>c \<in> set (dropWhile isWhiteSpace s). \<not> isUpperAZ c"
    using assms by (meson set_dropWhileD)
  then show ?thesis
    by (auto simp: state_here_def split: list.splits)
qed

lemma stateMatch_no_capital:
  "\<forall>c \<in> set s. \<not> isUpperAZ c \<Longrightarrow> stateMatch s = None"
  by (induction s) (auto simp: state_here_no_capital)

lemma set_trim: "set (trim s) \<subseteq> set s"
proof -
  have "set (trim s) = set (dropWhile isWhiteSpace (rev (dropWhile isWhiteSpace s)))"
    by (simp add: trim_def)
  also have "\<dots> \<subseteq> set (rev (dropWhile isWhiteSpace s))"
    by (meson set_dropWhileD subsetI)
  also have "\<dots> \<subseteq> set s"
    using set_dropWhileD by fastforce
  finally show ?thesis .
qed

lemma tier6_never_hits: "tier6 (trim (toLowerCase s)) options = None"
proof -
  have "\<forall>c \<in> set (trim (toLowerCase s)). \<not> isUpperAZ c"
    using set_trim [of "toLowerCase s"] by (auto simp: toLowerCase_def toLowerChar_not_upper)
  then show ?thesis by (simp add: tier6_def stateMatch_no_capital)
qed

text \<open>
  Claim C9, at the free text \<^verbatim>\<open>"Miami, FL"\<close> with the single option \<^verbatim>\<open>"Florida"\<close>: the text
  ends in a state code, the option contains that code without regard to case, and no
  earlier tier matches; the pattern of the sixth tier fails on the lower-cased location
  and the matcher returns \<^verbatim>\<open>null\<close>.
\<close>

theorem state_code_rule_misses:
  "stateMatch ''Miami, FL'' = Some ''FL''
   \<and> str_includes (toLowerCase (name (opt ''Florida''))) (toLowerCase ''FL'')
   \<and> first_hit [tier1, tier2, tier3, tier4, tier5] (trim (toLowerCase ''Miami, FL'')) [opt ''Florida''] = None
   \<and> stateMatch (trim (toLowerCase ''Miami, FL'')) = None
   \<and> findBestLocationMatch ''Miami, FL'' [opt ''Florida''] = None"
  by code_simp


section \<open>The order of the tiers\<close>

lemma first_hit_skip_tier6:
  "first_hit [tier1, tier2, tier3, tier4, tier5, tier6] (trim (toLowerCase s)) options
   = first_hit [tier1, tier2, tier3, tier4, tier5] (trim (toLowerCase s)) options"
  by (simp add: tier6_never_hits split: option.splits)

text \<open>
  Claim C4 as stated, with the order of the specification (the option name inside the
  free text before the free text inside an option name): for \<^verbatim>\<open>"New York"\<close> and the options
  \<^verbatim>\<open>"New York City"\<close>, \<^verbatim>\<open>"York"\<close> that order selects \<^verbatim>\<open>"York"\<close>; the code selects
  \<^verbatim>\<open>"New York City"\<close>.
\<close>

theorem matcher_order_counterexample:
  "findBestLocationMatch ''New York'' [opt ''New York City'', opt ''York''] = Some ''New York City''
   \<and> match_as_documented ''New York'' [opt ''New York City'', opt ''York''] = Some ''York''
   \<and> findBestLocationMatch ''New York'' [opt ''New York City'', opt ''York'']
       \<noteq> match_as_documented ''New York'' [opt ''New York City'', opt ''York'']"
  by code_simp

text \<open>
  Claim C4, amended. The four examples of the specification hold. For a non-empty free
  text and a non-empty option list the first hit wins in this order: the first option
  equal to the lower-cased, trimmed text without regard to case; else the first option
  whose name contains the text; else the first option whose name the text contains; else,
  when the text contains \<^verbatim>\<open>remote\<close>, the first option that contains it; else the result of
  the keyword families.
\<close>

theorem matcher_order:
  "findBestLocationMatch ''San Francisco, CA'' [opt ''Remote'', opt ''San Francisco'', opt ''New York'']
     = Some ''San Francisco''
   \<and> findBestLocationMatch ''SF Bay Area'' [opt ''Remote'', opt ''San Francisco'', opt ''New York'']
     = Some ''San Francisco''
   \<and> findBestLocationMatch ''fully remote role'' [opt ''Remote'', opt ''Onsite''] = Some ''Remote''
   \<and> findBestLocationMatch ''Berlin'' [opt ''Remote'', opt ''San Francisco''] = None
   \<and> (extractedLocation \<noteq> [] \<and> options \<noteq> [] \<longrightarrow>
        (let loc = trim (toLowerCase extractedLocation);
             exact = find (\<lambda>option. toLowerCase (name option) = loc) options;
             inside = find (\<lambda>option. str_includes (toLowerCase (name option)) loc) options;
             around = find (\<lambda>option. str_includes loc (toLowerCase (name option))) options;
             remote = (if str_includes loc ''remote''
                       then find (\<lambda>option. str_includes (toLowerCase (name option)) ''remote'') options
                       else None);
             family = cityStateLoop cityStatePatterns loc options;
             result = findBestLocationMatch extractedLocation options
         in (exact \<noteq> None \<longrightarrow> result = map_option name exact)
            \<and> (exact = None \<and> inside \<noteq> None \<longrightarrow> result = map_option name inside)
            \<and> (exact = None \<and> inside = None \<and> around \<noteq> None \<longrightarrow>
                 result = map_option name around)
            \<and> (exact = None \<and> inside = None \<and> around = None \<and> remote \<noteq> None \<longrightarrow>
                 result = map_option name remote)
            \<and> (exact = None \<and> inside = None \<and> around = None \<and> remote = None
                 \<and> family \<noteq> None \<longrightarrow> result = family)))"
proof -
  have ex: "findBestLocationMatch ''San Francisco, CA'' [opt ''Remote'', opt ''San Francisco'', opt ''New York'']
     = Some ''San Francisco''
   \<and> findBestLocationMatch ''SF Bay Area'' [opt ''Remote'', opt ''San Francisco'', opt ''New York'']
     = Some ''San Francisco''
   \<and> findBestLocationMatch ''fully remote role'' [opt ''Remote'', opt ''Onsite''] = Some ''Remote''
   \<and> findBestLocationMatch ''Berlin'' [opt ''Remote'', opt ''San Francisco''] = None"
    by code_simp
  have ord: "findBestLocationMatch extractedLocation options =
     (let loc = trim (toLowerCase extractedLocation);
             exact = find (\<lambda>option. toLowerCase (name option) = loc) options;
             inside = find (\<lambda>option. str_includes (toLowerCase (name option)) loc) options;
             around = find (\<lambda>option. str_includes loc (toLowerCase (name option))) options;
             remote = (if str_includes loc ''remote''
                       then find (\<lambda>option. str_includes (toLowerCase (name option)) ''remote'') options
                       else None);
             family = cityStateLoop cityStatePatterns loc options
         in (if exact \<noteq> None then map_option name exact
               else if inside \<noteq> None then map_option name inside
               else if around \<noteq> None then map_option name around
               else if remote \<noteq> None then map_option name remote
               else family))"
    if "extractedLocation \<noteq> []" "options \<noteq> []"
    using that
    unfolding findBestLocationMatch_def first_hit_skip_tier6
    by (auto simp: Let_def tier1_def tier2_def tier3_def tier4_def tier5_def first_option_def
        split: option.splits)
  from ex show ?thesis
    using ord by (simp add: Let_def)
qed

theorem matcher_order_witness:
  "''New York'' \<noteq> [] \<and> [opt ''New York City'', opt ''York''] \<noteq> []
   \<and> find (\<lambda>option. toLowerCase (name option) = trim (toLowerCase ''New York''))
        [opt ''New York City'', opt ''York''] = None
   \<and> find (\<lambda>option. str_includes (toLowerCase (name option)) (trim (toLowerCase ''New York'')))
        [opt ''New York City'', opt ''York''] = Some (opt ''New York City'')
   \<and> findBestLocationMatch ''New York'' [opt ''New York City'', opt ''York'']
        = map_option name (Some (opt ''New York City''))"
proof -
  have h: "''New York'' \<noteq> [] \<and> [opt ''New York City'', opt ''York''] \<noteq> []" by simp
  have e: "find (\<lambda>option. toLowerCase (name option) = trim (toLowerCase ''New York''))
        [opt ''New York City'', opt ''York''] = None"
    by code_simp
  have i: "find (\<lambda>option. str_includes (toLowerCase (name option)) (trim (toLowerCase ''New York'')))
        [opt ''New York City'', opt ''York''] = Some (opt ''New York City'')"
    by code_simp
  from matcher_order [of "''New York''" "[opt ''New York City'', opt ''York'']"] h
  have "findBestLocationMatch ''New York'' [opt ''New York City'', opt ''York'']
        = map_option name (Some (opt ''New York City''))"
    unfolding Let_def e i by simp
  with h e i show ?thesis by blast
qed

section \<open>The number formatter\<close>

text \<open>
  Claim C7 as stated, at the input \<^verbatim>\<open>"abc"\<close>: the text is not empty, so the guard passes and
  the formatter returns \<^verbatim>\<open>parseFloat("abc")\<close>, which is \<^verbatim>\<open>NaN\<close> and not \<^verbatim>\<open>null\<close>.
\<close>

theorem number_formatter_counterexample:
  "PropertyFormatters_number (NumText ''abc'') = Some NaN
   \<and> PropertyFormatters_number (NumText ''abc'') \<noteq> None"
  by code_simp

text \<open>
  Claim C7, amended. The number formatter has no failing branch. For the empty string and
  for \<^verbatim>\<open>null\<close> it yields \<^verbatim>\<open>null\<close>. For a non-empty string with no numeric prefix it yields
  \<^verbatim>\<open>NaN\<close>, which the request body carries as \<^verbatim>\<open>null\<close>; for a string with a numeric prefix
  it yields the number of that prefix.
\<close>

theorem number_formatter:
  "PropertyFormatters_number (NumText []) = None
   \<and> PropertyFormatters_number NumNull = None
   \<and> (v \<noteq> [] \<and> str_decimal_prefix (dropWhile isWhiteSpace v) = None \<longrightarrow>
        PropertyFormatters_number (NumText v) = Some NaN
        \<and> json_number finite_literal (PropertyFormatters_number (NumText v)) = None)
   \<and> (v \<noteq> [] \<and> str_decimal_prefix (dropWhile isWhiteSpace v) = Some lit \<longrightarrow>
        PropertyFormatters_number (NumText v) = Some (Num lit))"
  by (simp add: parseFloat_def)

theorem number_formatter_witness:
  "''abc'' \<noteq> [] \<and> str_decimal_prefix (dropWhile isWhiteSpace ''abc'') = None
   \<and> PropertyFormatters_number (NumText ''abc'') = Some NaN
   \<and> json_number (\<lambda>lit. True) (PropertyFormatters_number (NumText ''abc'')) = None
   \<and> str_decimal_prefix (dropWhile isWhiteSpace ''12.5'') = Some ''12.5''
   \<and> PropertyFormatters_number (NumText ''12.5'') = Some (Num ''12.5'')"
proof -
  have a: "str_decimal_prefix (dropWhile isWhiteSpace ''abc'') = None" by code_simp
  have b: "str_decimal_prefix (dropWhile isWhiteSpace ''12.5'') = Some ''12.5''" by code_simp
  from a b number_formatter [of "''abc''" "\<lambda>lit. True"]
    number_formatter [of "''12.5''" "\<lambda>lit. True" "''12.5''"]
  show ?thesis by simp
qed

section \<open>The payload builder\<close>

lemma payload_step_other:
  "n \<noteq> propertyName grp \<Longrightarrow> payload_step hiddenFields properties grp n = properties n"
  by (simp add: payload_step_def Let_def split: option.splits)

lemma payload_step_hidden:
  "propertyName grp \<in> hiddenFields \<Longrightarrow> payload_step hiddenFields properties grp = properties"
  by (simp add: payload_step_def)

lemma foldl_payload_step_absent:
  "n \<notin> propertyName ` set formGroups \<Longrightarrow>
   foldl (payload_step hiddenFields) properties formGroups n = properties n"
  by (induction formGroups arbitrary: properties) (auto simp: payload_step_other)

lemma foldl_payload_step_hidden:
  "n \<in> hiddenFields \<Longrightarrow>
   foldl (payload_step hiddenFields) properties formGroups n = properties n"
proof (induction formGroups arbitrary: properties)
  case Nil
  then show ?case by simp
next
  case (Cons grp formGroups)
  show ?case
  proof (cases "propertyName grp = n")
    case True
    with Cons show ?thesis by (simp add: payload_step_hidden)
  next
    case False
    with Cons show ?thesis by (simp add: payload_step_other)
  qed
qed

lemma foldl_payload_step_member:
  "distinct (map propertyName formGroups) \<Longrightarrow> grp \<in> set formGroups \<Longrightarrow>
   foldl (payload_step hiddenFields) properties formGroups (propertyName grp)
     = payload_step hiddenFields properties grp (propertyName grp)"
proof (induction formGroups arbitrary: properties)
  case Nil
  then show ?case by simp
next
  case (Cons g formGroups)
  show ?case
  proof (cases "grp = g")
    case True
    with Cons.prems have "propertyName grp \<notin> propertyName ` set formGroups" by auto
    with True show ?thesis by (simp add: foldl_payload_step_absent)
  next
    case False
    with Cons.prems have m: "grp \<in> set formGroups" and d: "distinct (map propertyName formGroups)"
      and ne: "propertyName grp \<noteq> propertyName g" by (auto simp: image_iff)
    have "foldl (payload_step hiddenFields) (payload_step hiddenFields properties g) formGroups
            (propertyName grp)
          = payload_step hiddenFields (payload_step hiddenFields properties g) grp (propertyName grp)"
      using Cons.IH [OF d m] .
    also have "\<dots> = payload_step hiddenFields properties grp (propertyName grp)"
      using ne by (simp add: payload_step_def Let_def split: option.splits)
    finally show ?thesis by simp
  qed
qed

lemma buildPayload_member:
  "distinct (map propertyName formGroups) \<Longrightarrow> grp \<in> set formGroups \<Longrightarrow>
   buildPayload hiddenFields formGroups (propertyName grp)
     = payload_step hiddenFields Map.empty grp (propertyName grp)"
  by (simp add: buildPayload_def foldl_payload_step_member)

text \<open>
  Claim C3 as stated, at a form with one visible multi-select group in which nothing is
  selected: its value is the empty list, a non-title field with an empty value, and the
  payload has its key.
\<close>

theorem payload_builder_counterexample:
  "getFieldValue tags_group MultiSelect = VList []
   \<and> buildPayload {} [tags_group] ''Tags'' = Some (WMultiSelect [])"
  by (simp add: tags_group_def buildPayload_def payload_step_def has_value_def
      PropertyFormatters_multi_select_def)

text \<open>
  Claim C3, amended. A name in the hidden set is never a key of the payload. For a form
  whose groups have distinct names and a group that is not hidden: a title group is a key
  with a title value, which is the placeholder \<^verbatim>\<open>Untitled\<close> when its input is empty; a group
  of a type other than title, checkbox and multi-select whose input is empty is not a
  key; a checkbox group and a multi-select group are always keys, with \<^verbatim>\<open>false\<close> and the
  empty list as values when nothing is set.
\<close>

theorem payload_builder:
  "(n \<in> hiddenFields \<longrightarrow> buildPayload hiddenFields formGroups n = None)
   \<and> (distinct (map propertyName formGroups) \<and> grp \<in> set formGroups
        \<and> propertyName grp \<notin> hiddenFields \<longrightarrow>
        (propertyType grp = Title \<longrightarrow>
           buildPayload hiddenFields formGroups (propertyName grp) =
             Some (WTitle [sent_run (if input_value grp = [] then ''Untitled'' else input_value grp)]))
        \<and> (propertyType grp \<notin> {Title, Checkbox, MultiSelect} \<and> input_value grp = [] \<longrightarrow>
             buildPayload hiddenFields formGroups (propertyName grp) = None)
        \<and> (propertyType grp = Checkbox \<longrightarrow>
             buildPayload hiddenFields formGroups (propertyName grp) = Some (WCheckbox (checked grp)))
        \<and> (propertyType grp = MultiSelect \<longrightarrow>
             buildPayload hiddenFields formGroups (propertyName grp)
               = Some (WMultiSelect (hidden_values grp))))"
proof -
  have h: "buildPayload hiddenFields formGroups n = None" if "n \<in> hiddenFields"
    using that by (simp add: buildPayload_def foldl_payload_step_hidden)
  have v: "(propertyType grp = Title \<longrightarrow>
           buildPayload hiddenFields formGroups (propertyName grp) =
             Some (WTitle [sent_run (if input_value grp = [] then ''Untitled'' else input_value grp)]))
        \<and> (propertyType grp \<notin> {Title, Checkbox, MultiSelect} \<and> input_value grp = [] \<longrightarrow>
             buildPayload hiddenFields formGroups (propertyName grp) = None)
        \<and> (propertyType grp = Checkbox \<longrightarrow>
             buildPayload hiddenFields formGroups (propertyName grp) = Some (WCheckbox (checked grp)))
        \<and> (propertyType grp = MultiSelect \<longrightarrow>
             buildPayload hiddenFields formGroups (propertyName grp)
               = Some (WMultiSelect (hidden_values grp)))"
    if "distinct (map propertyName formGroups)" "grp \<in> set formGroups"
      "propertyName grp \<notin> hiddenFields"
    unfolding buildPayload_member [OF that(1,2)]
    using that(3)
    by (cases "propertyType grp")
       (simp_all add: payload_step_def has_value_def PropertyFormatters_title_def
          PropertyFormatters_checkbox_def PropertyFormatters_multi_select_def)
  from h v show ?thesis by blast
qed

theorem payload_builder_witness:
  "''Notes'' \<in> {''Notes''}
   \<and> buildPayload {''Notes''} [name_group, notes_group] ''Notes'' = None
   \<and> distinct (map propertyName [name_group, notes_group])
   \<and> name_group \<in> set [name_group, notes_group]
   \<and> propertyName name_group \<notin> {''Notes''}
   \<and> propertyType name_group = Title
   \<and> buildPayload {''Notes''} [name_group, notes_group] (propertyName name_group)
       = Some (WTitle [sent_run ''Untitled''])"
proof -
  have a: "distinct (map propertyName [name_group, notes_group])
     \<and> name_group \<in> set [name_group, notes_group]
     \<and> propertyName name_group \<notin> {''Notes''}
     \<and> propertyType name_group = Title \<and> input_value name_group = []"
    by (simp add: name_group_def notes_group_def)
  from a payload_builder [of "''Notes''" "{''Notes''}" "[name_group, notes_group]" name_group]
  show ?thesis by simp
qed

section \<open>Submitting\<close>

lemma handleSubmit_calls:
  "api_calls (handleSubmit result s) =
     api_calls s @ [if truthy (existingPageId s)
                    then UpdatePage (the (existingPageId s)) (buildPayload (hidden s) (form s))
                    else CreatePage (buildPayload (hidden s) (form s))]"
  by (simp add: handleSubmit_def Let_def showSuccess_def split: sum.splits)

lemma handleSubmit_keeps:
  "existingPageId (handleSubmit result s) = existingPageId s
   \<and> form (handleSubmit result s) = form s \<and> hidden (handleSubmit result s) = hidden s"
  by (simp add: handleSubmit_def Let_def showSuccess_def split: sum.splits)

lemma handleBackgroundSave_calls:
  "api_calls (handleBackgroundSave result s) =
     api_calls s @ [if truthy (existingPageId s)
                    then UpdatePage (the (existingPageId s)) (buildPayload (hidden s) (form s))
                    else CreatePage (buildPayload (hidden s) (form s))]"
  by (simp add: handleBackgroundSave_def Let_def split: sum.splits)

lemma handleBackgroundSave_after_create:
  "\<not> truthy (existingPageId s) \<Longrightarrow>
   existingPageId (handleBackgroundSave (Inr pageId) s) = Some pageId"
  by (simp add: handleBackgroundSave_def Let_def)

lemma background_save_twice:
  "api_calls (handleBackgroundSave (Inr ''page-2'') (handleBackgroundSave (Inr ''page-1'') new_session))
     = [CreatePage (buildPayload {} [name_group]), UpdatePage ''page-1'' (buildPayload {} [name_group])]"
  by (simp add: handleBackgroundSave_def Let_def new_session_def truthy_def)

text \<open>
  Claim C5, at a session with no existing row: \<^verbatim>\<open>handleSubmit\<close> issues one create call and
  shows the success screen, but leaves \<^verbatim>\<open>existingPageId\<close> at \<^verbatim>\<open>null\<close>; a second submit of the
  same session, through the quick-save shortcut, issues a second create call.
  \<open>background_save_twice\<close> is the sibling path, where the second save is an update.
\<close>

theorem submit_twice_creates_twice:
  "existingPageId new_session = None
   \<and> display (handleSubmit (Inr ''page-1'') new_session) = SuccessScreen
   \<and> existingPageId (handleSubmit (Inr ''page-1'') new_session) = None
   \<and> api_calls (handleSubmit (Inr ''page-1'') new_session)
       = [CreatePage (buildPayload {} [name_group])]
   \<and> api_calls (quickSave (Inr ''page-2'') (handleSubmit (Inr ''page-1'') new_session))
       = [CreatePage (buildPayload {} [name_group]), CreatePage (buildPayload {} [name_group])]"
  by (simp add: quickSave_def handleSubmit_def Let_def new_session_def truthy_def showSuccess_def
      showForm_def)

section \<open>Rendering with an existing row\<close>

lemma strip_newlines_clean: "\<forall>c \<in> set v. \<not> isNewline c \<Longrightarrow> strip_newlines v = v"
  by (simp add: strip_newlines_def)

lemma normalize_newlines_clean: "\<forall>c \<in> set v. \<not> isNewline c \<Longrightarrow> normalize_newlines v = v"
proof (induction v rule: normalize_newlines.induct)
  case 1
  then show ?case by simp
next
  case (2 c)
  then have "c \<noteq> CHR 0x0D" by (auto simp: isNewline_def)
  then show ?case by simp
next
  case (3 c d s)
  from "3.prems" have c: "c \<noteq> CHR 0x0D" by (auto simp: isNewline_def)
  from "3.prems" have "\<forall>x \<in> set (d # s). \<not> isNewline x" by simp
  with c "3.IH"(3) have "normalize_newlines (d # s) = d # s" by simp
  with c show ?case by simp
qed

lemma strip_ascii_whitespace_clean:
  assumes "v \<noteq> []" and "\<not> isAsciiWhitespace (hd v)" and "\<not> isAsciiWhitespace (last v)"
  shows "strip_ascii_whitespace v = v"
proof -
  from assms(1,2) have "dropWhile isAsciiWhitespace v = v"
    by (cases v) simp_all
  moreover from assms(1,3) have "dropWhile isAsciiWhitespace (rev v) = rev v"
    by (cases "rev v") (simp_all add: hd_rev [symmetric])
  ultimately show ?thesis by (simp add: strip_ascii_whitespace_def)
qed

lemma set_select_value_member:
  "v \<in> set (map name options) \<Longrightarrow> set_select_value (option_values options) v = v"
  by (simp add: set_select_value_def option_values_def)

lemma set_select_value_other:
  "v \<noteq> [] \<Longrightarrow> v \<notin> set (map name options) \<Longrightarrow>
   set_select_value (option_values options) v = []"
  by (simp add: set_select_value_def option_values_def)

text \<open>
  Claim C6 as stated, at an existing row whose entry for the field is the empty string:
  the title, rich-text and url fields start with the value derived from the page. And at
  an existing title with a line break: the input of the title holds it without the line
  break.
\<close>

theorem existing_value_counterexample:
  "renderTitleField ''Name'' example_tab (Some []) = ''Backend Engineer | Acme''
   \<and> renderTitleField ''Name'' example_tab (Some []) \<noteq> []
   \<and> renderRichTextField ''Raw JD'' example_tab (Some []) = ''We are hiring''
   \<and> renderUrlField example_tab (Some []) = ''https://jobs.acme.test/123''
   \<and> renderTitleField ''Name'' example_tab (Some line_break_title) = ''StaffEngineer''
   \<and> renderTitleField ''Name'' example_tab (Some line_break_title) \<noteq> line_break_title"
  by code_simp

text \<open>
  Claim C6, amended. With an existing row, a field starts with the value of its entry as
  its element holds it, whatever the page says, whenever the entry is not the empty
  string: an input of a title, phone or company-name rich text holds it without line
  breaks, an input of a url or email also without blanks around it, a text area with its
  line breaks normalized, a select or status holds it when it is the name of an option
  and is unset when it is not, a date input holds its ISO date when that is a valid date
  string, a number input holds the printed Number (zero too) and is empty for the empty
  entry, a checkbox and a multi-select hold the entry also when it is \<^verbatim>\<open>false\<close> or the
  empty list. So an entry without line breaks (and, for a url or email, without blanks
  around it) is the initial value as it is. An entry of a title, rich-text, url, select
  or status field that is the empty string is treated as no entry: the field then starts
  with its default from the page.
\<close>

theorem existing_value_wins:
  "(v \<noteq> [] \<longrightarrow>
      renderTitleField n tab (Some v) = text_input_value v
      \<and> renderRichTextField n tab (Some v)
          = (if isCompanyNameField n then text_input_value v else textarea_value v)
      \<and> renderUrlField tab (Some v) = trimmed_input_value v
      \<and> renderEmailField (Some v) = trimmed_input_value v
      \<and> renderPhoneField (Some v) = text_input_value v
      \<and> renderSelectField n options tab (Some v) = set_select_value (option_values options) v
      \<and> renderStatusField n options tab (Some v) = set_select_value (option_values options) v
      \<and> renderDateField dateToISO (Some v)
          = date_input_value (case dateToISO v of Some d \<Rightarrow> d | None \<Rightarrow> v))
   \<and> (v \<noteq> [] \<and> (\<forall>c \<in> set v. \<not> isNewline c) \<longrightarrow>
        renderTitleField n tab (Some v) = v
        \<and> renderRichTextField n tab (Some v) = v
        \<and> renderPhoneField (Some v) = v
        \<and> (\<not> isAsciiWhitespace (hd v) \<and> \<not> isAsciiWhitespace (last v) \<longrightarrow>
             renderUrlField tab (Some v) = v \<and> renderEmailField (Some v) = v))
   \<and> (v \<noteq> [] \<and> v \<in> set (map name options) \<longrightarrow>
        renderSelectField n options tab (Some v) = v
        \<and> renderStatusField n options tab (Some v) = v)
   \<and> (v \<noteq> [] \<and> v \<notin> set (map name options) \<longrightarrow>
        renderSelectField n options tab (Some v) = []
        \<and> renderStatusField n options tab (Some v) = [])
   \<and> (valid_date_string v \<and> dateToISO v = Some v \<longrightarrow> renderDateField dateToISO (Some v) = v)
   \<and> renderNumberField numberToString (Some (ParsedNumber x))
       = number_input_value (numberToString x)
   \<and> (valid_floating_point_number (numberToString x) \<longrightarrow>
        renderNumberField numberToString (Some (ParsedNumber x)) = numberToString x)
   \<and> renderNumberField numberToString (Some ParsedEmpty) = []
   \<and> renderCheckboxField (Some b) = b
   \<and> renderMultiSelectField (Some vs) = vs
   \<and> renderTitleField n tab (Some []) = renderTitleField n tab None
   \<and> renderRichTextField n tab (Some []) = renderRichTextField n tab None
   \<and> renderUrlField tab (Some []) = renderUrlField tab None
   \<and> renderSelectField n options tab (Some []) = renderSelectField n options tab None
   \<and> renderStatusField n options tab (Some []) = renderStatusField n options tab None"
proof -
  have a: "renderTitleField n tab (Some v) = text_input_value v
      \<and> renderRichTextField n tab (Some v)
          = (if isCompanyNameField n then text_input_value v else textarea_value v)
      \<and> renderUrlField tab (Some v) = trimmed_input_value v
      \<and> renderEmailField (Some v) = trimmed_input_value v
      \<and> renderPhoneField (Some v) = text_input_value v
      \<and> renderSelectField n options tab (Some v) = set_select_value (option_values options) v
      \<and> renderStatusField n options tab (Some v) = set_select_value (option_values options) v
      \<and> renderDateField dateToISO (Some v)
          = date_input_value (case dateToISO v of Some d \<Rightarrow> d | None \<Rightarrow> v)"
    if "v \<noteq> []"
    using that
    by (simp add: renderTitleField_def renderRichTextField_def renderUrlField_def
        renderEmailField_def renderPhoneField_def renderSelectField_def renderStatusField_def
        renderDateField_def truthy_def split: option.splits)
  have b: "renderTitleField n tab (Some v) = v
        \<and> renderRichTextField n tab (Some v) = v
        \<and> renderPhoneField (Some v) = v
        \<and> (\<not> isAsciiWhitespace (hd v) \<and> \<not> isAsciiWhitespace (last v) \<longrightarrow>
             renderUrlField tab (Some v) = v \<and> renderEmailField (Some v) = v)"
    if "v \<noteq> []" "\<forall>c \<in> set v. \<not> isNewline c"
    using a [OF that(1)] strip_newlines_clean [OF that(2)] normalize_newlines_clean [OF that(2)]
      strip_ascii_whitespace_clean [OF that(1)]
    by (simp add: text_input_value_def textarea_value_def trimmed_input_value_def)
  have c: "renderSelectField n options tab (Some v) = v
        \<and> renderStatusField n options tab (Some v) = v"
    if "v \<noteq> []" "v \<in> set (map name options)"
    using a [OF that(1)] set_select_value_member [OF that(2)] by simp
  have d: "renderSelectField n options tab (Some v) = []
        \<and> renderStatusField n options tab (Some v) = []"
    if "v \<noteq> []" "v \<notin> set (map name options)"
    using a [OF that(1)] set_select_value_other [OF that] by simp
  have e: "renderDateField dateToISO (Some v) = v"
    if "valid_date_string v" "dateToISO v = Some v"
  proof -
    from that(1) have "v \<noteq> []" by (auto simp: valid_date_string_def Let_def)
    with a that show ?thesis by (simp add: date_input_value_def)
  qed
  have f: "renderNumberField numberToString (Some (ParsedNumber x))
       = number_input_value (numberToString x)
   \<and> (valid_floating_point_number (numberToString x) \<longrightarrow>
        renderNumberField numberToString (Some (ParsedNumber x)) = numberToString x)
   \<and> renderNumberField numberToString (Some ParsedEmpty) = []
   \<and> renderCheckboxField (Some b) = b
   \<and> renderMultiSelectField (Some vs) = vs"
    by (simp add: renderNumberField_def number_input_value_def renderCheckboxField_def
        renderMultiSelectField_def)
  have g: "renderTitleField n tab (Some []) = renderTitleField n tab None
   \<and> renderRichTextField n tab (Some []) = renderRichTextField n tab None
   \<and> renderUrlField tab (Some []) = renderUrlField tab None
   \<and> renderSelectField n options tab (Some []) = renderSelectField n options tab None
   \<and> renderStatusField n options tab (Some []) = renderStatusField n options tab None"
    by (simp add: renderTitleField_def renderRichTextField_def renderUrlField_def
        renderSelectField_def renderStatusField_def truthy_def)
  from a b c d e f g show ?thesis by blast
qed

theorem existing_value_wins_witness:
  "''Staff Engineer'' \<noteq> [] \<and> list_all (\<lambda>c. \<not> isNewline c) ''Staff Engineer''
   \<and> renderTitleField ''Role'' example_tab (Some ''Staff Engineer'') = ''Staff Engineer''
   \<and> ''Applied'' \<in> set (map name [opt ''To Review'', opt ''Applied''])
   \<and> renderSelectField ''Location'' [opt ''To Review'', opt ''Applied''] example_tab (Some ''Applied'')
       = ''Applied''
   \<and> ''Archived'' \<notin> set (map name [opt ''To Review'', opt ''Applied''])
   \<and> renderSelectField ''Location'' [opt ''To Review'', opt ''Applied''] example_tab (Some ''Archived'')
       = []
   \<and> valid_date_string ''2024-02-29''
   \<and> renderDateField (\<lambda>s. Some s) (Some ''2024-02-29'') = ''2024-02-29''
   \<and> valid_floating_point_number ''0''
   \<and> renderNumberField (\<lambda>x. ''0'') (Some (ParsedNumber (Num ''0''))) = ''0''"
proof -
  have n: "''Staff Engineer'' \<noteq> [] \<and> (\<forall>c \<in> set ''Staff Engineer''. \<not> isNewline c)"
    by code_simp
  have m: "''Applied'' \<noteq> [] \<and> ''Applied'' \<in> set (map name [opt ''To Review'', opt ''Applied''])"
    by (simp add: opt_def)
  have k: "''Archived'' \<noteq> [] \<and> ''Archived'' \<notin> set (map name [opt ''To Review'', opt ''Applied''])"
    by (simp add: opt_def)
  have d: "valid_date_string ''2024-02-29''" by code_simp
  have f: "valid_floating_point_number ''0''" by code_simp
  have t1: "renderTitleField ''Role'' example_tab (Some ''Staff Engineer'') = ''Staff Engineer''"
    using n existing_value_wins [of "''Staff Engineer''" "''Role''" example_tab]
    by blast
  have t2: "renderSelectField ''Location'' [opt ''To Review'', opt ''Applied''] example_tab
      (Some ''Applied'') = ''Applied''"
    using m existing_value_wins [of "''Applied''" "''Location''" example_tab
      "[opt ''To Review'', opt ''Applied'']"]
    by blast
  have t3: "renderSelectField ''Location'' [opt ''To Review'', opt ''Applied''] example_tab
      (Some ''Archived'') = []"
    using k existing_value_wins [of "''Archived''" "''Location''" example_tab
      "[opt ''To Review'', opt ''Applied'']"]
    by blast
  have t4: "renderDateField (\<lambda>s. Some s) (Some ''2024-02-29'') = ''2024-02-29''"
    using d existing_value_wins [of "''2024-02-29''" _ _ _ "\<lambda>s. Some s"]
    by blast
  have t5: "renderNumberField (\<lambda>x. ''0'') (Some (ParsedNumber (Num ''0''))) = ''0''"
    using f existing_value_wins [of _ _ _ _ _ "\<lambda>x. ''0''" "Num ''0''"]
    by blast
  have n': "list_all (\<lambda>c. \<not> isNewline c) ''Staff Engineer''"
    using n by (simp only: list_all_iff) blast
  from n n' m k d f t1 t2 t3 t4 t5 show ?thesis by blast
qed

section \<open>AI fill of a choice field\<close>

lemma toLowerCase_empty: "toLowerCase m = toLowerCase v \<Longrightarrow> v \<noteq> [] \<Longrightarrow> m \<noteq> []"
  by (auto simp: toLowerCase_def)

lemma fillSelect_result:
  "fillSelect grp v = (grp', filled) \<Longrightarrow>
   (if filled
    then input_value grp' \<in> set (select_values grp) \<and> input_value grp' \<noteq> []
         \<and> toLowerCase (input_value grp') = toLowerCase v
         \<and> grp' = grp\<lparr>input_value := input_value grp'\<rparr>
    else grp' = grp)"
  by (auto simp: fillSelect_def set_select_value_def find_Some_iff nth_mem
      split: if_splits option.splits dest: toLowerCase_empty)

lemma fillSelect_no_match:
  "\<forall>opt \<in> set (select_values grp). toLowerCase opt \<noteq> toLowerCase v \<Longrightarrow>
   fillSelect grp v = (grp, False)"
proof -
  assume "\<forall>opt \<in> set (select_values grp). toLowerCase opt \<noteq> toLowerCase v"
  then have "find (\<lambda>opt. toLowerCase opt = toLowerCase v) (select_values grp) = None"
    by (simp add: find_None_iff)
  then show ?thesis by (simp add: fillSelect_def)
qed

lemma fillFormField_first:
  "find (\<lambda>g. propertyName g = fieldName) formGroups = Some grp \<Longrightarrow>
   \<exists>pre post. formGroups = pre @ grp # post
     \<and> fillFormField other formGroups fieldName v
         = (pre @ fst (fillGroup other grp v) # post, snd (fillGroup other grp v))"
proof (induction formGroups)
  case Nil
  then show ?case by simp
next
  case (Cons g formGroups)
  show ?case
  proof (cases "propertyName g = fieldName")
    case True
    with Cons.prems have "g = grp" by simp
    with True have "g # formGroups = [] @ grp # formGroups
      \<and> fillFormField other (g # formGroups) fieldName v
         = ([] @ fst (fillGroup other grp v) # formGroups, snd (fillGroup other grp v))"
      by (simp split: prod.splits)
    then show ?thesis by blast
  next
    case False
    with Cons.prems have "find (\<lambda>g. propertyName g = fieldName) formGroups = Some grp" by simp
    from Cons.IH [OF this] obtain pre post where
      p: "formGroups = pre @ grp # post"
      and f: "fillFormField other formGroups fieldName v
         = (pre @ fst (fillGroup other grp v) # post, snd (fillGroup other grp v))"
      by blast
    from False p f have "g # formGroups = (g # pre) @ grp # post
      \<and> fillFormField other (g # formGroups) fieldName v
         = ((g # pre) @ fst (fillGroup other grp v) # post, snd (fillGroup other grp v))"
      by simp
    then show ?thesis by blast
  qed
qed

text \<open>
  Claim C8. When the first group with the proposed field name is a select or status
  group: if no option of the group equals the proposal without regard to case, the form
  is unchanged and the field counts as not filled; whenever the field is not filled the
  form is unchanged; and when it is filled, only the value of that group changes, to an
  option of the group that equals the proposal without regard to case, which is the name
  of an option of the column.
\<close>

theorem ai_fill_select:
  assumes "find (\<lambda>g. propertyName g = fieldName) formGroups = Some grp"
    and "propertyType grp = Select \<or> propertyType grp = Status"
    and "fillFormField other formGroups fieldName v = (formGroups', filled)"
  shows "((\<forall>opt \<in> set (select_values grp). toLowerCase opt \<noteq> toLowerCase v) \<longrightarrow>
            formGroups' = formGroups \<and> \<not> filled)
         \<and> (\<not> filled \<longrightarrow> formGroups' = formGroups)
         \<and> (filled \<longrightarrow>
              (\<exists>pre post m. formGroups = pre @ grp # post
                 \<and> formGroups' = pre @ grp\<lparr>input_value := m\<rparr> # post
                 \<and> m \<in> set (select_values grp) \<and> m \<noteq> []
                 \<and> toLowerCase m = toLowerCase v
                 \<and> (select_values grp = option_values options \<longrightarrow> m \<in> set (map name options))))"
proof -
  from fillFormField_first [OF assms(1), of other v] obtain pre post where
    p: "formGroups = pre @ grp # post"
    and f: "fillFormField other formGroups fieldName v
         = (pre @ fst (fillGroup other grp v) # post, snd (fillGroup other grp v))"
    by blast
  obtain grp' where g: "fillSelect grp v = (grp', filled)"
    and fg: "formGroups' = pre @ grp' # post"
    using f assms(2,3) by (cases "fillSelect grp v") (auto simp: fillGroup_def)
  note r = fillSelect_result [OF g]
  have one: "formGroups' = formGroups \<and> \<not> filled"
    if "\<forall>opt \<in> set (select_values grp). toLowerCase opt \<noteq> toLowerCase v"
    using fillSelect_no_match [OF that] g fg p by simp
  have two: "formGroups' = formGroups" if "\<not> filled"
    using that r fg p by simp
  have three: "\<exists>pre post m. formGroups = pre @ grp # post
                 \<and> formGroups' = pre @ grp\<lparr>input_value := m\<rparr> # post
                 \<and> m \<in> set (select_values grp) \<and> m \<noteq> []
                 \<and> toLowerCase m = toLowerCase v
                 \<and> (select_values grp = option_values options \<longrightarrow> m \<in> set (map name options))"
    if "filled"
  proof -
    from that r have m: "input_value grp' \<in> set (select_values grp)" "input_value grp' \<noteq> []"
      "toLowerCase (input_value grp') = toLowerCase v"
      "grp' = grp\<lparr>input_value := input_value grp'\<rparr>"
      by simp_all
    have "select_values grp = option_values options \<longrightarrow> input_value grp' \<in> set (map name options)"
      using m(1,2) by (auto simp: option_values_def)
    with m p fg show ?thesis by metis
  qed
  from one two three show ?thesis by blast
qed

theorem ai_fill_select_witness:
  "find (\<lambda>g. propertyName g = ''Status'') [name_group, status_group] = Some status_group
   \<and> (propertyType status_group = Select \<or> propertyType status_group = Status)
   \<and> fillFormField no_other_branch [name_group, status_group] ''Status'' ''applied''
       = ([name_group, status_group\<lparr>input_value := ''Applied''\<rparr>], True)
   \<and> select_values status_group = option_values [opt ''To Review'', opt ''Applied'']
   \<and> (\<exists>pre post m. [name_group, status_group] = pre @ status_group # post
         \<and> [name_group, status_group\<lparr>input_value := ''Applied''\<rparr>]
             = pre @ status_group\<lparr>input_value := m\<rparr> # post
         \<and> m \<in> set (map name [opt ''To Review'', opt ''Applied''])
         \<and> toLowerCase m = toLowerCase ''applied'')"
proof -
  have a: "find (\<lambda>g. propertyName g = ''Status'') [name_group, status_group] = Some status_group"
    by (simp add: name_group_def status_group_def)
  have b: "propertyType status_group = Select \<or> propertyType status_group = Status"
    by (simp add: status_group_def)
  have c: "fillFormField no_other_branch [name_group, status_group] ''Status'' ''applied''
       = ([name_group, status_group\<lparr>input_value := ''Applied''\<rparr>], True)"
    by code_simp
  have d: "select_values status_group = option_values [opt ''To Review'', opt ''Applied'']"
    by (simp add: status_group_def)
  from ai_fill_select [OF a b c, of "[opt ''To Review'', opt ''Applied'']"] d
  have "\<exists>pre post m. [name_group, status_group] = pre @ status_group # post
         \<and> [name_group, status_group\<lparr>input_value := ''Applied''\<rparr>]
             = pre @ status_group\<lparr>input_value := m\<rparr> # post
         \<and> m \<in> set (map name [opt ''To Review'', opt ''Applied''])
         \<and> toLowerCase m = toLowerCase ''applied''"
    by blast
  with a b c d show ?thesis by blast
qed

end
